theory Spec2Isabelle
  imports Complex_Main "HOL-Library.Sublist"
begin

section \<open>The race-test scripts of auth9\<close>

text \<open>
  The repository holds a family of stand-alone scripts, each firing a burst of concurrent
  requests at one endpoint and judging the aggregate. Each script is embedded below under
  the name of its module, since the modules reuse the names \<open>create_tenant\<close>,
  \<open>reset_password\<close> and \<open>main\<close>. The target system is outside the repository: what a
  library call returns or raises is an argument of the model (\<open>post i\<close> is the behaviour
  of the transport for the invocation with index \<open>i\<close>). A line printed inside a \<open>try\<close>
  may raise, and what its \<open>except\<close> then does is part of the model; the lines printed
  outside any \<open>try\<close> are taken to be printed.
\<close>

subsection \<open>Exceptions, requests and replies\<close>

datatype exn_kind =
    ConnectionRefused | TimeoutExn | MalformedBody | AttributeError | UnicodeEncodeError | OtherExn

datatype exn = Exn exn_kind string

text \<open>Python's \<open>str(e)\<close>.\<close>

fun str :: "exn \<Rightarrow> string" where
  "str (Exn k msg) = msg"

text \<open>
  The arguments of \<open>requests.post\<close> / \<open>session.post\<close>: the URL, the JSON body as the
  dict the script builds, and the \<open>timeout=\<close> keyword when the script passes one.
\<close>

record post_request =
  req_url :: string
  req_json :: "(string \<times> string) list"
  req_timeout :: "nat option"

text \<open>\<open>requests.post\<close> returns a response (\<open>status_code\<close>, \<open>text\<close>) or raises.\<close>

datatype requests_result = Response int string | Raised exn

text \<open>
  A decoded JSON body: an object with its members, or a value of another Python type
  (\<open>list\<close>, \<open>str\<close>, \<open>int\<close>, \<open>NoneType\<close>, ...), which has no method \<open>get\<close>.
\<close>

datatype json_body = JObject "(string \<times> string) list" | JOther string

text \<open>
  \<open>session.post\<close> of aiohttp raises, or yields a response with a \<open>status\<close> whose
  \<open>json()\<close> in turn raises or returns the decoded body.
\<close>

datatype aio_result = PostRaised exn | Resp int "exn + json_body"

text \<open>
  Time. What the target does with one HTTP call: it answers after so many seconds, it
  makes the call fail after so many seconds (a refused connection), or it never
  answers. \<open>requests.post\<close> with \<open>timeout=\<close> waits that long at most and then raises; without
  a timeout it waits for the answer, and a call that gets none does not return
  (\<open>None\<close>).
\<close>

datatype target = Answers real int string | Fails real exn | Silent

fun overdue :: "nat \<Rightarrow> target \<Rightarrow> bool" where
  "overdue limit (Answers d status_code text) = (real limit < d)"
| "overdue limit (Fails d e) = (real limit < d)"
| "overdue limit Silent = True"

definition requests_post ::
  "(post_request \<Rightarrow> target) \<Rightarrow> post_request \<Rightarrow> requests_result option" where
  "requests_post tgt req =
     (case req_timeout req of
        None \<Rightarrow>
          (case tgt req of
             Answers d status_code text \<Rightarrow> Some (Response status_code text)
           | Fails d e \<Rightarrow> Some (Raised e)
           | Silent \<Rightarrow> None)
      | Some limit \<Rightarrow>
          if overdue limit (tgt req) then Some (Raised (Exn TimeoutExn ''Read timed out.''))
          else (case tgt req of
                  Answers d status_code text \<Rightarrow> Some (Response status_code text)
                | Fails d e \<Rightarrow> Some (Raised e)
                | Silent \<Rightarrow> Some (Raised (Exn TimeoutExn ''Read timed out.''))))"

text \<open>
  An invoker run against such a target: \<open>invoker\<close> is the function of the script, taking
  what \<open>requests.post\<close> does, and \<open>req\<close> the request it posts. The result is \<open>None\<close> when
  the invoker does not return.
\<close>

definition invoke ::
  "(post_request \<Rightarrow> target) \<Rightarrow> post_request \<Rightarrow> ((post_request \<Rightarrow> requests_result) \<Rightarrow> 'a)
     \<Rightarrow> 'a option" where
  "invoke tgt req invoker = map_option (\<lambda>reply. invoker (\<lambda>r. reply)) (requests_post tgt req)"

text \<open>Decimal rendering of a number inside an f-string.\<close>

definition digit :: "nat \<Rightarrow> char" where
  "digit d = ''0123456789'' ! d"

fun string_of_nat :: "nat \<Rightarrow> string" where
  "string_of_nat n =
     (if n < 10 then [digit n] else string_of_nat (n div 10) @ [digit (n mod 10)])"

declare string_of_nat.simps [simp del]

text \<open>\<open>sum(1 for r in results if P r)\<close>, a Python int.\<close>

definition count_if :: "('a \<Rightarrow> bool) \<Rightarrow> 'a list \<Rightarrow> int" where
  "count_if P xs = int (length (filter P xs))"

text \<open>\<open>"needle" in text\<close> on strings.\<close>

fun contains :: "string \<Rightarrow> string \<Rightarrow> bool" where
  "contains needle [] = (needle = [])"
| "contains needle (c # cs) = (prefix needle (c # cs) \<or> contains needle cs)"

subsection \<open>tenant_race_test.py\<close>

definition tenant_race_test_request :: "string \<Rightarrow> nat \<Rightarrow> post_request" where
  "tenant_race_test_request token sfx =
     \<lparr> req_url = ''http://localhost:8080/api/v1/tenants'',
       req_json = [(''name'', ''Race Tenant '' @ string_of_nat sfx),
                   (''slug'', ''race-test-slug'')],
       req_timeout = Some 10 \<rparr>"

definition tenant_race_test_create_tenant ::
  "(post_request \<Rightarrow> requests_result) \<Rightarrow> string \<Rightarrow> nat \<Rightarrow> int \<times> string" where
  "tenant_race_test_create_tenant post token sfx =
     (case post (tenant_race_test_request token sfx) of
        Response status_code text \<Rightarrow> (status_code, text)
      | Raised e \<Rightarrow> (0, str e))"

definition tenant_race_test_create_tenant_on ::
  "(post_request \<Rightarrow> target) \<Rightarrow> string \<Rightarrow> nat \<Rightarrow> (int \<times> string) option" where
  "tenant_race_test_create_tenant_on tgt token sfx =
     invoke tgt (tenant_race_test_request token sfx)
       (\<lambda>post. tenant_race_test_create_tenant post token sfx)"

text \<open>The line printed by the final \<open>if\<close>/\<open>elif\<close>/\<open>else\<close> of \<open>test_tenant_slug_race\<close>.\<close>

datatype tenant_message =
    TenantRaceConditionDetected int
  | TenantPass
  | TenantUnexpected int int

text \<open>
  A row of the \<open>data\<close> list of the search endpoint. The calls made outside
  \<open>create_tenant\<close> are not guarded by the script: the search before the burst, the
  delete and the search after the burst each return (a status, and for a search the
  \<open>data\<close> list) or raise, and a raise ends the script.
\<close>

record tenant_row =
  row_id :: string
  row_name :: string

record tenant_world =
  tw_check :: "exn + int \<times> tenant_row list"
  tw_delete :: "exn + int"
  tw_post :: "nat \<Rightarrow> post_request \<Rightarrow> requests_result"
  tw_verify :: "exn + int \<times> tenant_row list"

text \<open>
  What the script reports: the ids it deleted before the burst, the results of the burst,
  the three counts, the verdict line and the returned boolean.
\<close>

record tenant_report =
  tr_deleted :: "string list"
  tr_results :: "(int \<times> string) list"
  tr_success_count :: int
  tr_conflict_count :: int
  tr_other_count :: int
  tr_message :: tenant_message
  tr_return :: bool

definition tenant_race_test_verdict :: "int \<Rightarrow> int \<Rightarrow> tenant_message \<times> bool" where
  "tenant_race_test_verdict success_count conflict_count =
     (if success_count > 1 then (TenantRaceConditionDetected success_count, False)
      else if success_count = 1 \<and> conflict_count = 19 then (TenantPass, True)
      else (TenantUnexpected success_count conflict_count, False))"

text \<open>
  The cleanup at the head of \<open>test_tenant_slug_race\<close>: when the search answers 200 with
  a non-empty list, the first row (\<open>existing[0]\<close>) is deleted, and only that one.
\<close>

definition tenant_race_test_cleanup :: "tenant_world \<Rightarrow> exn + string list" where
  "tenant_race_test_cleanup w =
     (case tw_check w of
        Inl e \<Rightarrow> Inl e
      | Inr (status_code, existing) \<Rightarrow>
          if status_code = 200
          then (case existing of
                  [] \<Rightarrow> Inr []
                | row # _ \<Rightarrow> (case tw_delete w of Inl e \<Rightarrow> Inl e | Inr _ \<Rightarrow> Inr [row_id row]))
          else Inr [])"

text \<open>
  \<open>test_tenant_slug_race\<close>: the cleanup, then 20 calls of \<open>create_tenant\<close> for \<open>i\<close> in
  \<open>range(20)\<close>, the three counts, the search after the burst and the verdict.
\<close>

definition test_tenant_slug_race :: "string \<Rightarrow> tenant_world \<Rightarrow> exn + tenant_report" where
  "test_tenant_slug_race token w =
     (case tenant_race_test_cleanup w of
        Inl e \<Rightarrow> Inl e
      | Inr deleted \<Rightarrow>
          (let results = map (\<lambda>i. tenant_race_test_create_tenant (tw_post w i) token i) [0..<20];
               success_count = count_if (\<lambda>(status, _). status = 201) results;
               conflict_count = count_if (\<lambda>(status, _). status = 409) results;
               other_count = int (length results) - success_count - conflict_count;
               verdict = tenant_race_test_verdict success_count conflict_count
           in case tw_verify w of
                Inl e \<Rightarrow> Inl e
              | Inr _ \<Rightarrow>
                  Inr \<lparr> tr_deleted = deleted, tr_results = results,
                        tr_success_count = success_count, tr_conflict_count = conflict_count,
                        tr_other_count = other_count,
                        tr_message = fst verdict, tr_return = snd verdict \<rparr>))"

text \<open>
  \<open>exit(0 if success else 1)\<close>; an exception that reaches the top level ends the
  interpreter with exit code 1.
\<close>

definition tenant_race_test_main :: "string \<Rightarrow> tenant_world \<Rightarrow> int" where
  "tenant_race_test_main token w =
     (case test_tenant_slug_race token w of
        Inl e \<Rightarrow> 1
      | Inr r \<Rightarrow> if tr_return r then 0 else 1)"

subsection \<open>race_test_tenant.py\<close>

text \<open>
  How a script's \<open>main\<close> ends: it returns early for want of a token, an exception
  reaches the top level, or it runs to its last line.
\<close>

datatype 'a run = NoToken | Uncaught exn | Finished 'a

text \<open>
  The request \<open>create_tenant\<close> posts. The slug is the literal \<open>race-test-slug\<close>; the
  function has no slug parameter, and no \<open>timeout=\<close> is passed to \<open>session.post\<close>.
\<close>

definition race_test_tenant_request :: "string \<Rightarrow> nat \<Rightarrow> post_request" where
  "race_test_tenant_request token slug_suffix =
     \<lparr> req_url = ''http://localhost:8080/api/v1/tenants'',
       req_json = [(''name'', ''Race Tenant '' @ string_of_nat slug_suffix),
                   (''slug'', ''race-test-slug'')],
       req_timeout = None \<rparr>"

text \<open>
  The dict \<open>create_tenant\<close> returns: the key \<open>response\<close> is present on the normal path
  only, the key \<open>error\<close> on the exception path only. \<open>elapsed\<close> is the difference of the
  two clock readings around the post.
\<close>

record tenant_outcome =
  o_request_id :: nat
  o_status :: int
  o_success :: bool
  o_response :: "json_body option"
  o_error :: "string option"
  o_latency :: real

definition race_test_tenant_create_tenant ::
  "(post_request \<Rightarrow> aio_result) \<Rightarrow> real \<Rightarrow> string \<Rightarrow> nat \<Rightarrow> nat \<Rightarrow> tenant_outcome" where
  "race_test_tenant_create_tenant post elapsed token slug_suffix request_id =
     (case post (race_test_tenant_request token slug_suffix) of
        Resp status (Inr body) \<Rightarrow>
          \<lparr> o_request_id = request_id, o_status = status, o_success = (status = 201),
            o_response = Some body, o_error = None, o_latency = elapsed \<rparr>
      | Resp status (Inl e) \<Rightarrow>
          \<lparr> o_request_id = request_id, o_status = 0, o_success = False,
            o_response = None, o_error = Some (str e), o_latency = 0 \<rparr>
      | PostRaised e \<Rightarrow>
          \<lparr> o_request_id = request_id, o_status = 0, o_success = False,
            o_response = None, o_error = Some (str e), o_latency = 0 \<rparr>)"

text \<open>
  \<open>check_tenant_count\<close>: the search for a slug answers with a status and, in the body,
  \<open>pagination.total\<close> when present; the call is not guarded.
\<close>

definition check_tenant_count :: "(string \<Rightarrow> exn + int \<times> int option) \<Rightarrow> string \<Rightarrow> exn + int" where
  "check_tenant_count search slug =
     (case search slug of
        Inl e \<Rightarrow> Inl e
      | Inr (status, pagination_total) \<Rightarrow>
          if status = 200 then Inr (case pagination_total of None \<Rightarrow> 0 | Some n \<Rightarrow> n) else Inr 0)"

text \<open>The four lines of the security assessment that ends \<open>main\<close>.\<close>

datatype assessment =
    RaceConditionVulnerability int int
  | Safe
  | AllConflict
  | Abnormal int int

definition race_test_tenant_assessment :: "int \<Rightarrow> int \<Rightarrow> int \<Rightarrow> assessment" where
  "race_test_tenant_assessment success_count conflict_count final_count =
     (if success_count > 1 then RaceConditionVulnerability success_count final_count
      else if success_count = 1 \<and> final_count = 1 then Safe
      else if success_count = 0 \<and> conflict_count > 0 then AllConflict
      else Abnormal success_count final_count)"

text \<open>
  The surroundings of \<open>main\<close>: the search endpoint before and after the burst, the
  transport of each of the 20 tasks and its elapsed time.
\<close>

record async_world =
  aw_search_before :: "string \<Rightarrow> exn + int \<times> int option"
  aw_post :: "nat \<Rightarrow> post_request \<Rightarrow> aio_result"
  aw_elapsed :: "nat \<Rightarrow> real"
  aw_search_after :: "string \<Rightarrow> exn + int \<times> int option"

text \<open>
  What \<open>main\<close> prints: the slug it announces (\<open>test_slug\<close>), the requests the 20 tasks
  post, the results, the counts, the slug of the search after the burst with the count
  found, and the assessment.
\<close>

record async_report =
  ar_existing_count :: int
  ar_test_slug :: string
  ar_posted :: "post_request list"
  ar_results :: "tenant_outcome list"
  ar_success_count :: int
  ar_conflict_count :: int
  ar_other_failure :: int
  ar_probed_slug :: string
  ar_final_count :: int
  ar_assessment :: assessment

text \<open>
  The 20 tasks \<open>create_tenant(session, token, i+1, i+1)\<close> for \<open>i\<close> in
  \<open>range(concurrency)\<close>, awaited together; \<open>create_tenant\<close> catches what it raises, so
  the gathering yields the 20 dicts in task order.
\<close>

definition race_test_tenant_tasks :: "async_world \<Rightarrow> string \<Rightarrow> nat \<Rightarrow> tenant_outcome list" where
  "race_test_tenant_tasks w token concurrency =
     map (\<lambda>i. race_test_tenant_create_tenant (aw_post w i) (aw_elapsed w i) token (i + 1) (i + 1))
         [0..<concurrency]"

text \<open>
  The loop over \<open>results[:10]\<close> that prints the details: for a result that is no success
  and has the key \<open>response\<close>, \<open>result["response"].get("message", "Unknown")\<close> is
  evaluated, which raises \<open>AttributeError\<close> when the body is no JSON object. Nothing
  guards the loop, so the first such result ends the script.
\<close>

fun print_details :: "tenant_outcome list \<Rightarrow> exn option" where
  "print_details [] = None"
| "print_details (r # rs) =
     (if \<not> o_success r
      then (case o_response r of
              Some (JOther ty) \<Rightarrow>
                Some (Exn AttributeError ([CHR 0x27] @ ty @ [CHR 0x27] @ '' object has no attribute ''
                                            @ [CHR 0x27] @ ''get'' @ [CHR 0x27]))
            | Some (JObject members) \<Rightarrow> print_details rs
            | None \<Rightarrow> print_details rs)
      else print_details rs)"

text \<open>
  \<open>main\<close>. The counts are taken and printed, then the details of the first 10 results,
  then the search after the burst and the assessment.
\<close>

definition race_test_tenant_main :: "string \<Rightarrow> async_world \<Rightarrow> async_report run" where
  "race_test_tenant_main token w =
     (if token = [] then NoToken
      else case check_tenant_count (aw_search_before w) ''race-test-slug'' of
        Inl e \<Rightarrow> Uncaught e
      | Inr existing_count \<Rightarrow>
          (let test_slug = (if existing_count > 0 then ''race-test-slug-new''
                            else ''race-test-slug'');
               concurrency = 20;
               results = race_test_tenant_tasks w token concurrency;
               success_count = count_if o_success results;
               conflict_count = count_if (\<lambda>r. o_status r = 409) results;
               other_failure = int (length results) - success_count - conflict_count
           in case print_details (take 10 results) of
                Some e \<Rightarrow> Uncaught e
              | None \<Rightarrow>
             (case check_tenant_count (aw_search_after w) test_slug of
                Inl e \<Rightarrow> Uncaught e
              | Inr final_count \<Rightarrow>
                  Finished \<lparr> ar_existing_count = existing_count, ar_test_slug = test_slug,
                    ar_posted = map (\<lambda>i. race_test_tenant_request token (i + 1)) [0..<concurrency],
                    ar_results = results,
                    ar_success_count = success_count, ar_conflict_count = conflict_count,
                    ar_other_failure = other_failure,
                    ar_probed_slug = test_slug, ar_final_count = final_count,
                    ar_assessment =
                      race_test_tenant_assessment success_count conflict_count final_count \<rparr>)))"

text \<open>
  The script body is \<open>asyncio.run(main())\<close>: \<open>main\<close> returns nothing on every path, so the
  exit code is 0 unless an exception reaches the top level.
\<close>

definition race_test_tenant_exit_code :: "string \<Rightarrow> async_world \<Rightarrow> int" where
  "race_test_tenant_exit_code token w =
     (case race_test_tenant_main token w of
        NoToken \<Rightarrow> 0
      | Uncaught e \<Rightarrow> 1
      | Finished r \<Rightarrow> 0)"

subsection \<open>race_test.py\<close>

text \<open>
  \<open>reset\<close> posts without a \<open>try\<close> and without a \<open>timeout=\<close>: what \<open>session.post\<close> raises
  leaves \<open>reset\<close>. \<open>RESET_TOKEN\<close> is the module's constant.
\<close>

definition RESET_TOKEN :: string where
  "RESET_TOKEN = ''ed77f54774aa64b90a52106539eb79cd8244083d09add93fee58aba2da2f8bd1''"

definition race_test_request :: "nat \<Rightarrow> post_request" where
  "race_test_request i =
     \<lparr> req_url = ''http://localhost:8080/api/v1/auth/reset-password'',
       req_json = [(''token'', RESET_TOKEN),
                   (''new_password'', ''NewPass'' @ string_of_nat i @ ''!'')],
       req_timeout = None \<rparr>"

definition reset :: "(post_request \<Rightarrow> aio_result) \<Rightarrow> nat \<Rightarrow> exn + int" where
  "reset post i =
     (case post (race_test_request i) of
        Resp status _ \<Rightarrow> Inr status
      | PostRaised e \<Rightarrow> Inl e)"

text \<open>
  \<open>asyncio.gather\<close> without \<open>return_exceptions\<close>: the results in task order, or an
  exception of one of the tasks (here the one of the lowest index; which one the
  interpreter propagates depends on timing).
\<close>

fun gather :: "(exn + 'a) list \<Rightarrow> exn + 'a list" where
  "gather [] = Inr []"
| "gather (Inl e # rs) = Inl e"
| "gather (Inr v # rs) = (case gather rs of Inl e \<Rightarrow> Inl e | Inr vs \<Rightarrow> Inr (v # vs))"

text \<open>
  \<open>main\<close>: 50 tasks; the line \<open>Success: .., Failed: ..\<close> is printed, then the
  \<open>assert\<close> raises when more than one status is 200. \<open>Printed\<close> is the end without a
  raise, with the two numbers of the line.
\<close>

datatype race_test_end =
    Propagated exn
  | AssertionError_RACE_CONDITION int
  | Printed int int

definition race_test_main :: "(nat \<Rightarrow> post_request \<Rightarrow> aio_result) \<Rightarrow> race_test_end" where
  "race_test_main post =
     (case gather (map (\<lambda>i. reset (post i) i) [0..<50]) of
        Inl e \<Rightarrow> Propagated e
      | Inr results \<Rightarrow>
          (let success = count_if (\<lambda>status. status = 200) results
           in if success \<le> 1 then Printed success (int (length results) - success)
              else AssertionError_RACE_CONDITION success))"

subsection \<open>race_test_simple.py\<close>

definition race_test_simple_request :: "nat \<Rightarrow> post_request" where
  "race_test_simple_request i =
     \<lparr> req_url = ''http://localhost:8080/api/v1/auth/reset-password'',
       req_json = [(''token'', RESET_TOKEN),
                   (''new_password'', ''NewPass'' @ string_of_nat i @ ''!'')],
       req_timeout = Some 5 \<rparr>"

definition race_test_simple_reset_password ::
  "(post_request \<Rightarrow> requests_result) \<Rightarrow> nat \<Rightarrow> int \<times> string" where
  "race_test_simple_reset_password post i =
     (case post (race_test_simple_request i) of
        Response status_code text \<Rightarrow> (status_code, text)
      | Raised e \<Rightarrow> (0, str e))"

definition race_test_simple_reset_password_on ::
  "(post_request \<Rightarrow> target) \<Rightarrow> nat \<Rightarrow> (int \<times> string) option" where
  "race_test_simple_reset_password_on tgt i =
     invoke tgt (race_test_simple_request i) (\<lambda>post. race_test_simple_reset_password post i)"

text \<open>The verdict lines shared by \<open>race_test_simple.py\<close> and \<open>full_race_test.py\<close>.\<close>

datatype reset_message =
    ResetRaceConditionDetected int
  | ResetPass
  | ResetFailNoSuccessfulResets

record reset_report =
  rr_results :: "(int \<times> string) list"
  rr_success_count :: int
  rr_error_count :: int
  rr_other_count :: int
  rr_message :: reset_message

definition race_test_simple_verdict :: "int \<Rightarrow> reset_message" where
  "race_test_simple_verdict success_count =
     (if success_count > 1 then ResetRaceConditionDetected success_count
      else if success_count = 1 then ResetPass
      else ResetFailNoSuccessfulResets)"

text \<open>\<open>main\<close> prints and returns nothing: the script's exit code is 0 on every path.\<close>

definition race_test_simple_main :: "(nat \<Rightarrow> post_request \<Rightarrow> requests_result) \<Rightarrow> reset_report" where
  "race_test_simple_main post =
     (let results = map (\<lambda>i. race_test_simple_reset_password (post i) i) [0..<50];
          success_count = count_if (\<lambda>(status, _). status = 200) results;
          error_count = count_if (\<lambda>(status, _). status = 400 \<or> status = 404) results;
          other_count = int (length results) - success_count - error_count
      in \<lparr> rr_results = results, rr_success_count = success_count,
           rr_error_count = error_count, rr_other_count = other_count,
           rr_message = race_test_simple_verdict success_count \<rparr>)"

text \<open>
  The script body is \<open>main()\<close>; \<open>reset_password\<close> catches what the post raises, so
  \<open>main\<close> runs to its end and the interpreter exits with 0.
\<close>

definition race_test_simple_exit_code :: "(nat \<Rightarrow> post_request \<Rightarrow> requests_result) \<Rightarrow> int" where
  "race_test_simple_exit_code post = (case race_test_simple_main post of r \<Rightarrow> 0)"

subsection \<open>full_race_test.py\<close>

definition full_race_test_request :: "string \<Rightarrow> string \<Rightarrow> post_request" where
  "full_race_test_request token password_suffix =
     \<lparr> req_url = ''http://localhost:8080/api/v1/auth/reset-password'',
       req_json = [(''token'', token),
                   (''new_password'', ''NewPass'' @ password_suffix @ ''!'')],
       req_timeout = Some 5 \<rparr>"

definition full_race_test_reset_password ::
  "(post_request \<Rightarrow> requests_result) \<Rightarrow> string \<Rightarrow> string \<Rightarrow> int \<times> string" where
  "full_race_test_reset_password post token password_suffix =
     (case post (full_race_test_request token password_suffix) of
        Response status_code text \<Rightarrow> (status_code, text)
      | Raised e \<Rightarrow> (0, str e))"

definition full_race_test_reset_password_on ::
  "(post_request \<Rightarrow> target) \<Rightarrow> string \<Rightarrow> string \<Rightarrow> (int \<times> string) option" where
  "full_race_test_reset_password_on tgt token password_suffix =
     invoke tgt (full_race_test_request token password_suffix)
       (\<lambda>post. full_race_test_reset_password post token password_suffix)"

definition full_race_test_verdict :: "int \<Rightarrow> reset_message \<times> bool" where
  "full_race_test_verdict success_count =
     (if success_count > 1 then (ResetRaceConditionDetected success_count, False)
      else if success_count = 1 then (ResetPass, True)
      else (ResetFailNoSuccessfulResets, False))"

text \<open>
  The surroundings of \<open>test_concurrent_reset\<close>: \<open>get_reset_token\<close> (mail inbox, not
  guarded) yields a token, \<open>None\<close>, or raises, at its first and at its second call; the
  transport of the single request of step 2 and of each of the 50 concurrent ones.
\<close>

record reset_world =
  fw_first_token :: "exn + string option"
  fw_single :: "post_request \<Rightarrow> requests_result"
  fw_second_token :: "exn + string option"
  fw_post :: "nat \<Rightarrow> post_request \<Rightarrow> requests_result"

text \<open>The burst and the verdict of \<open>test_concurrent_reset\<close>, once a token is held.\<close>

definition full_race_test_burst ::
  "(nat \<Rightarrow> post_request \<Rightarrow> requests_result) \<Rightarrow> string \<Rightarrow> reset_report \<times> bool" where
  "full_race_test_burst post token =
     (let results = map (\<lambda>i. full_race_test_reset_password (post i) token (string_of_nat i))
                        [0..<50];
          success_count = count_if (\<lambda>(status, _). status = 200) results;
          error_count = count_if (\<lambda>(status, _). status = 400 \<or> status = 404) results;
          other_count = int (length results) - success_count - error_count;
          verdict = full_race_test_verdict success_count
      in (\<lparr> rr_results = results, rr_success_count = success_count,
            rr_error_count = error_count, rr_other_count = other_count,
            rr_message = fst verdict \<rparr>, snd verdict))"

text \<open>
  \<open>test_concurrent_reset\<close>: the report is absent on the two early \<open>return False\<close>.
\<close>

definition test_concurrent_reset :: "reset_world \<Rightarrow> exn + reset_report option \<times> bool" where
  "test_concurrent_reset w =
     (case fw_first_token w of
        Inl e \<Rightarrow> Inl e
      | Inr None \<Rightarrow> Inr (None, False)
      | Inr (Some token) \<Rightarrow>
          (case full_race_test_reset_password (fw_single w) token ''test'' of
             (status, text) \<Rightarrow>
               if status \<noteq> 200
               then (case fw_second_token w of
                       Inl e \<Rightarrow> Inl e
                     | Inr None \<Rightarrow> Inr (None, False)
                     | Inr (Some fresh) \<Rightarrow>
                         (case full_race_test_burst (fw_post w) fresh of
                            (rep, ok) \<Rightarrow> Inr (Some rep, ok)))
               else (case full_race_test_burst (fw_post w) token of
                       (rep, ok) \<Rightarrow> Inr (Some rep, ok))))"

definition full_race_test_main :: "reset_world \<Rightarrow> int" where
  "full_race_test_main w =
     (case test_concurrent_reset w of
        Inl e \<Rightarrow> 1
      | Inr (rep, success) \<Rightarrow> if success then 0 else 1)"

subsection \<open>precise_race_test.py\<close>

text \<open>
  The instance state of \<open>RaceTest\<close>. The four counters are updated under \<open>self.lock\<close>,
  one invocation at a time; an update adds 1 to one counter, so the order in which the
  worker threads take the lock does not change the final counters, and the model takes
  the invocations in the order of their index.
\<close>

record RaceTest =
  self_token :: string
  self_slug :: string
  self_success_count :: int
  self_conflict_count :: int
  self_db_error_count :: int
  self_other_count :: int

text \<open>\<open>__init__\<close>; \<open>now\<close> is \<open>int(time.time())\<close>.\<close>

definition RaceTest_init :: "string \<Rightarrow> nat \<Rightarrow> RaceTest" where
  "RaceTest_init admin_token now =
     \<lparr> self_token = admin_token, self_slug = ''race-test-'' @ string_of_nat now,
       self_success_count = 0, self_conflict_count = 0, self_db_error_count = 0,
       self_other_count = 0 \<rparr>"

definition RaceTest_request :: "RaceTest \<Rightarrow> nat \<Rightarrow> post_request" where
  "RaceTest_request self sfx =
     \<lparr> req_url = ''http://localhost:8080/api/v1/tenants'',
       req_json = [(''name'', ''Race Tenant '' @ string_of_nat sfx), (''slug'', self_slug self)],
       req_timeout = Some 10 \<rparr>"

text \<open>
  \<open>create_tenant\<close>. The whole body stands in one \<open>try\<close>, and the branch of the status 201
  prints the line \<open>Success\<close> after it has added 1 to \<open>success_count\<close>: \<open>printing\<close> is
  what that print does, \<open>None\<close> when it returns and the exception when it raises (the
  line starts with a check mark, which a standard output of another encoding refuses).
  An exception raised there is caught by the same \<open>except\<close> as one raised by the post:
  it adds 1 to \<open>other_count\<close>, on top of the 1 already added to \<open>success_count\<close>, and the
  function returns \<open>(0, str(e))\<close>.
\<close>

definition RaceTest_create_tenant ::
  "(post_request \<Rightarrow> requests_result) \<Rightarrow> exn option \<Rightarrow> RaceTest \<Rightarrow> nat
     \<Rightarrow> RaceTest \<times> (int \<times> string)" where
  "RaceTest_create_tenant post printing self sfx =
     (case post (RaceTest_request self sfx) of
        Response status_code text \<Rightarrow>
          if status_code = 201
          then (case printing of
                  None \<Rightarrow>
                    (self\<lparr> self_success_count := self_success_count self + 1 \<rparr>,
                     (status_code, text))
                | Some e \<Rightarrow>
                    (self\<lparr> self_success_count := self_success_count self + 1,
                           self_other_count := self_other_count self + 1 \<rparr>,
                     (0, str e)))
          else if status_code = 409
          then (self\<lparr> self_conflict_count := self_conflict_count self + 1 \<rparr>, (status_code, text))
          else if status_code = 500 \<and> contains ''1062'' text
          then (self\<lparr> self_db_error_count := self_db_error_count self + 1 \<rparr>, (status_code, text))
          else (self\<lparr> self_other_count := self_other_count self + 1 \<rparr>, (status_code, text))
      | Raised e \<Rightarrow> (self\<lparr> self_other_count := self_other_count self + 1 \<rparr>, (0, str e)))"

definition RaceTest_create_tenant_on ::
  "(post_request \<Rightarrow> target) \<Rightarrow> exn option \<Rightarrow> RaceTest \<Rightarrow> nat
     \<Rightarrow> (RaceTest \<times> (int \<times> string)) option" where
  "RaceTest_create_tenant_on tgt printing self sfx =
     invoke tgt (RaceTest_request self sfx)
       (\<lambda>post. RaceTest_create_tenant post printing self sfx)"

text \<open>
  The surroundings of \<open>run_test\<close>: \<open>cleanup\<close> before and after the burst and \<open>verify\<close>
  talk to the target and to the database without a guard; each returns or raises.
  \<open>pw_printing i\<close> is what the print of the success line does in invocation \<open>i\<close>.
\<close>

record precise_world =
  pw_cleanup_before :: "exn option"
  pw_post :: "nat \<Rightarrow> post_request \<Rightarrow> requests_result"
  pw_printing :: "nat \<Rightarrow> exn option"
  pw_verify :: "exn option"
  pw_cleanup_after :: "exn option"

text \<open>The burst of \<open>run_test\<close>: \<open>create_tenant(i)\<close> for \<open>i\<close> in \<open>range(num_requests)\<close>.\<close>

definition RaceTest_burst ::
  "(nat \<Rightarrow> post_request \<Rightarrow> requests_result) \<Rightarrow> (nat \<Rightarrow> exn option) \<Rightarrow> RaceTest \<Rightarrow> nat
     \<Rightarrow> RaceTest" where
  "RaceTest_burst post printing self num_requests =
     fold (\<lambda>i st. fst (RaceTest_create_tenant (post i) (printing i) st i)) [0..<num_requests] self"

text \<open>
  \<open>run_test\<close> returns \<open>self.success_count == 1\<close>; the flag before it is the printed check
  \<open>All requests accounted for\<close> (\<open>total_expected == num_requests\<close>).
\<close>

definition run_test :: "precise_world \<Rightarrow> RaceTest \<Rightarrow> nat \<Rightarrow> exn + RaceTest \<times> bool \<times> bool" where
  "run_test w self num_requests =
     (case pw_cleanup_before w of
        Some e \<Rightarrow> Inl e
      | None \<Rightarrow>
          (let st = RaceTest_burst (pw_post w) (pw_printing w) self num_requests
           in case pw_verify w of
                Some e \<Rightarrow> Inl e
              | None \<Rightarrow>
                  (let total_expected = self_success_count st + self_conflict_count st + self_db_error_count st;
                       accounted = (total_expected = int num_requests)
                   in case pw_cleanup_after w of
                        Some e \<Rightarrow> Inl e
                      | None \<Rightarrow> Inr (st, accounted, self_success_count st = 1))))"

text \<open>
  The judgment a script announces on its last line and the exit code that goes with it.
  \<open>precise_race_test.py\<close> prints \<open>TEST PASSED\<close> and exits with 0, or prints
  \<open>TEST FAILED\<close> and exits with 1; no script of the repository announces a third
  judgment.
\<close>

datatype judgement = Pass | Fail | Inconclusive

definition precise_race_test_main :: "string \<Rightarrow> nat \<Rightarrow> precise_world \<Rightarrow> exn + judgement \<times> int" where
  "precise_race_test_main admin_token now w =
     (case run_test w (RaceTest_init admin_token now) 20 of
        Inl e \<Rightarrow> Inl e
      | Inr (st, accounted, success) \<Rightarrow> if success then Inr (Pass, 0) else Inr (Fail, 1))"

subsection \<open>grpc_race_test.py\<close>

text \<open>
  What the inner \<open>try\<close> of \<open>exchange_token\<close> meets on the standard output of a call
  that exited with 0: \<open>json.loads\<close>, the test \<open>"accessToken" in response\<close> and the slice
  \<open>response["accessToken"][:50]\<close> yield the token, find no such key, or raise (output
  that is no JSON, a value that supports no membership test, a token that is no string);
  the bare \<open>except\<close> catches every raise.
\<close>

datatype token_lookup = AccessToken string | NoAccessToken | LookupRaised

text \<open>
  \<open>subprocess.run(cmd, capture_output=True, text=True, timeout=10)\<close> completes with a
  return code, standard output and standard error, raises \<open>TimeoutExpired\<close> after the 10
  seconds, or raises something else.
\<close>

datatype proc_result =
    Completed int string string token_lookup
  | TimeoutExpired
  | ProcRaised exn

text \<open>
  The command itself: it exits after so many seconds with its return code and outputs,
  it never exits, or it cannot be started. \<open>subprocess.run\<close> with \<open>timeout=\<close> waits that
  long at most, then kills the command and raises \<open>TimeoutExpired\<close>; without a timeout
  it does not return while the command runs. The second component is the time that
  passed.
\<close>

datatype process = Exits real int string string token_lookup | Runs_on | Cannot_start exn

fun expires :: "real \<Rightarrow> process \<Rightarrow> bool" where
  "expires limit (Exits d returncode out err lookup) = (limit < d)"
| "expires limit Runs_on = True"
| "expires limit (Cannot_start e) = False"

definition subprocess_run :: "real option \<Rightarrow> process \<Rightarrow> (proc_result \<times> real) option" where
  "subprocess_run timeout proc =
     (case proc of
        Cannot_start e \<Rightarrow> Some (ProcRaised e, 0)
      | Exits d returncode out err lookup \<Rightarrow>
          (case timeout of
             None \<Rightarrow> Some (Completed returncode out err lookup, d)
           | Some limit \<Rightarrow>
               if limit < d then Some (TimeoutExpired, limit)
               else Some (Completed returncode out err lookup, d))
      | Runs_on \<Rightarrow>
          (case timeout of None \<Rightarrow> None | Some limit \<Rightarrow> Some (TimeoutExpired, limit)))"

text \<open>
  \<open>exchange_token\<close>, given what \<open>subprocess.run\<close> did (\<open>run\<close>) and the time measured
  around it (\<open>elapsed\<close>).
\<close>

definition exchange_token :: "proc_result \<Rightarrow> real \<Rightarrow> string \<times> real \<times> string" where
  "exchange_token run elapsed =
     (case run of
        Completed returncode out err lookup \<Rightarrow>
          if returncode = 0
          then (case lookup of
                  AccessToken t \<Rightarrow> (''success'', elapsed, take 50 t @ ''...'')
                | NoAccessToken \<Rightarrow> (''error'', elapsed, take 100 out)
                | LookupRaised \<Rightarrow> (''success'', elapsed, take 100 out))
          else (''error'', elapsed, take 100 err)
      | TimeoutExpired \<Rightarrow> (''timeout'', 10, ''Timeout'')
      | ProcRaised e \<Rightarrow> (''exception'', 0, take 100 (str e)))"

text \<open>
  \<open>exchange_token\<close> against a command: the call is
  \<open>subprocess.run(cmd, capture_output=True, text=True, timeout=10)\<close>.
\<close>

definition exchange_token_on :: "process \<Rightarrow> (string \<times> real \<times> string) option" where
  "exchange_token_on proc =
     map_option (\<lambda>(run, elapsed). exchange_token run elapsed) (subprocess_run (Some 10) proc)"

text \<open>
  The instance state of \<open>GrpcRaceTest\<close>; counters and \<open>responses\<close> are updated under
  \<open>self.lock\<close>. \<open>__init__\<close> sets the counters to 0 and nothing resets them later.
\<close>

record GrpcRaceTest =
  grpc_token :: string
  grpc_tenant_id :: string
  grpc_success_count :: int
  grpc_error_count :: int
  grpc_timeout_count :: int
  grpc_exception_count :: int
  grpc_responses :: "(nat \<times> string \<times> real \<times> string) list"

definition GrpcRaceTest_init :: "string \<Rightarrow> GrpcRaceTest" where
  "GrpcRaceTest_init admin_token =
     \<lparr> grpc_token = admin_token, grpc_tenant_id = ''e4a59fda-fc88-445f-9b6a-da66bf480a67'',
       grpc_success_count = 0, grpc_error_count = 0, grpc_timeout_count = 0,
       grpc_exception_count = 0, grpc_responses = [] \<rparr>"

definition run_exchange ::
  "proc_result \<Rightarrow> real \<Rightarrow> GrpcRaceTest \<Rightarrow> nat \<Rightarrow> GrpcRaceTest \<times> string" where
  "run_exchange run t self request_id =
     (case exchange_token run t of
        (result_type, elapsed, details) \<Rightarrow>
          ((if result_type = ''success''
            then self\<lparr> grpc_success_count := grpc_success_count self + 1,
                       grpc_responses := grpc_responses self @ [(request_id, ''success'', elapsed, details)] \<rparr>
            else if result_type = ''error''
            then self\<lparr> grpc_error_count := grpc_error_count self + 1,
                       grpc_responses := grpc_responses self @ [(request_id, ''error'', elapsed, details)] \<rparr>
            else if result_type = ''timeout''
            then self\<lparr> grpc_timeout_count := grpc_timeout_count self + 1,
                       grpc_responses := grpc_responses self @ [(request_id, ''timeout'', elapsed, details)] \<rparr>
            else self\<lparr> grpc_exception_count := grpc_exception_count self + 1,
                       grpc_responses := grpc_responses self @ [(request_id, ''exception'', elapsed, details)] \<rparr>),
           result_type))"

text \<open>
  \<open>run_test\<close>: \<open>run_exchange(i)\<close> for \<open>i\<close> in \<open>range(num_requests)\<close> on the same instance,
  then \<open>return self.success_count > 0\<close>. The statistics it prints in between do not
  enter the result.
\<close>

definition grpc_burst ::
  "(nat \<Rightarrow> proc_result) \<Rightarrow> (nat \<Rightarrow> real) \<Rightarrow> GrpcRaceTest \<Rightarrow> nat \<Rightarrow> GrpcRaceTest" where
  "grpc_burst run t self num_requests =
     fold (\<lambda>i st. fst (run_exchange (run i) (t i) st i)) [0..<num_requests] self"

definition grpc_run_test ::
  "(nat \<Rightarrow> proc_result) \<Rightarrow> (nat \<Rightarrow> real) \<Rightarrow> GrpcRaceTest \<Rightarrow> nat \<Rightarrow> GrpcRaceTest \<times> bool" where
  "grpc_run_test run t self num_requests =
     (let st = grpc_burst run t self num_requests in (st, grpc_success_count st > 0))"

text \<open>
  The script body: one instance; a single request through \<open>run_exchange(0)\<close>; when it
  is a success, \<open>run_test(num_requests=50, concurrency=20)\<close> on that same instance.
\<close>

datatype grpc_end = TEST_COMPLETED | TEST_FAILED | Single_request_failed

definition grpc_race_test_main ::
  "string \<Rightarrow> proc_result \<Rightarrow> real \<Rightarrow> (nat \<Rightarrow> proc_result) \<Rightarrow> (nat \<Rightarrow> real)
     \<Rightarrow> GrpcRaceTest \<times> grpc_end \<times> int" where
  "grpc_race_test_main admin_token single t0 run t =
     (case run_exchange single t0 (GrpcRaceTest_init admin_token) 0 of
        (test, result) \<Rightarrow>
          if result = ''success''
          then (case grpc_run_test run t test 50 of
                  (st, success) \<Rightarrow>
                    if success then (st, TEST_COMPLETED, 0) else (st, TEST_FAILED, 1))
          else (test, Single_request_failed, 1))"

subsection \<open>Ordered rules, as the specification words the classifier\<close>

text \<open>
  The specification describes classification as a list of (predicate, verdict) pairs
  tried from the top, the first match giving the verdict and a default applying when
  no pair matches. The scripts contain no such list; this function is that description,
  for comparison with the \<open>if\<close>/\<open>elif\<close> chains of the scripts.
\<close>

fun first_match :: "(('o \<Rightarrow> bool) \<times> 'v) list \<Rightarrow> 'v \<Rightarrow> 'o \<Rightarrow> 'v" where
  "first_match [] dflt x = dflt"
| "first_match ((p, v) # rules) dflt x = (if p x then v else first_match rules dflt x)"

text \<open>The counters of \<open>RaceTest\<close> as categories, and the update of one of them.\<close>

datatype category = Success | Conflict | DbError | Other

fun bump :: "category \<Rightarrow> RaceTest \<Rightarrow> RaceTest" where
  "bump Success self = self\<lparr> self_success_count := self_success_count self + 1 \<rparr>"
| "bump Conflict self = self\<lparr> self_conflict_count := self_conflict_count self + 1 \<rparr>"
| "bump DbError self = self\<lparr> self_db_error_count := self_db_error_count self + 1 \<rparr>"
| "bump Other self = self\<lparr> self_other_count := self_other_count self + 1 \<rparr>"

text \<open>The four counters of \<open>RaceTest\<close> added up.\<close>

definition total_count :: "RaceTest \<Rightarrow> int" where
  "total_count st =
     self_success_count st + self_conflict_count st + self_db_error_count st + self_other_count st"

text \<open>
  The conditions of the chain in \<open>RaceTest.create_tenant\<close>, in its order, read as rules
  over what \<open>requests.post\<close> yields; an exception satisfies none of them.
\<close>

definition precise_rules :: "((requests_result \<Rightarrow> bool) \<times> category) list" where
  "precise_rules =
     [((\<lambda>r. case r of Response status_code text \<Rightarrow> status_code = 201 | Raised e \<Rightarrow> False),
       Success),
      ((\<lambda>r. case r of Response status_code text \<Rightarrow> status_code = 409 | Raised e \<Rightarrow> False),
       Conflict),
      ((\<lambda>r. case r of Response status_code text \<Rightarrow> status_code = 500 \<and> contains ''1062'' text
                     | Raised e \<Rightarrow> False),
       DbError)]"


subsection \<open>Concrete surroundings used to run the scripts\<close>

text \<open>
  A target that creates the tenant for request 7 and answers 409 to the other nineteen.
\<close>

definition tenant_world_one_winner :: tenant_world where
  "tenant_world_one_winner =
     \<lparr> tw_check = Inr (200, []), tw_delete = Inr 200,
       tw_post = (\<lambda>i req. if i = 7 then Response 201 ''created'' else Response 409 ''conflict''),
       tw_verify = Inr (200, [\<lparr> row_id = ''t1'', row_name = ''Race Tenant 7'' \<rparr>]) \<rparr>"

text \<open>Transports that fail every call: a timeout, a refused connection, a 503.\<close>

definition post_timed_out :: "post_request \<Rightarrow> requests_result" where
  "post_timed_out req = Raised (Exn TimeoutExn ''Read timed out. (read timeout=10)'')"

definition post_unavailable :: "post_request \<Rightarrow> requests_result" where
  "post_unavailable req = Response 503 ''Service Unavailable''"

definition aio_timed_out :: "post_request \<Rightarrow> aio_result" where
  "aio_timed_out req = PostRaised (Exn TimeoutExn ''TimeoutError'')"

definition aio_refused :: "post_request \<Rightarrow> aio_result" where
  "aio_refused req = PostRaised (Exn ConnectionRefused ''Cannot connect to host localhost:8080'')"

text \<open>
  A target that already holds one tenant with the slug \<open>race-test-slug\<close> and therefore
  answers 409 to every creation with that slug; no tenant has the slug
  \<open>race-test-slug-new\<close>.
\<close>

definition async_world_dirty :: async_world where
  "async_world_dirty =
     \<lparr> aw_search_before = (\<lambda>s. Inr (200, Some (if s = ''race-test-slug'' then 1 else 0))),
       aw_post = (\<lambda>i req. Resp 409 (Inr (JObject [(''message'', ''slug already exists'')]))),
       aw_elapsed = (\<lambda>i. 0.05),
       aw_search_after = (\<lambda>s. Inr (200, Some (if s = ''race-test-slug'' then 1 else 0))) \<rparr>"

text \<open>
  A clean target on which the first task is answered 201 and the others 409, and whose
  search after the burst finds two tenants with the slug.
\<close>

definition async_world_two_rows :: async_world where
  "async_world_two_rows =
     \<lparr> aw_search_before = (\<lambda>s. Inr (200, Some 0)),
       aw_post = (\<lambda>i req. if i = 0 then Resp 201 (Inr (JObject [(''id'', ''t-1'')]))
                           else Resp 409 (Inr (JObject [(''message'', ''slug already exists'')]))),
       aw_elapsed = (\<lambda>i. 0.05),
       aw_search_after = (\<lambda>s. Inr (200, Some 2)) \<rparr>"

text \<open>Reading the report of a run that reached its last line.\<close>

fun finished :: "'a run \<Rightarrow> 'a option" where
  "finished (Finished r) = Some r"
| "finished NoToken = None"
| "finished (Uncaught e) = None"

definition posted_slugs :: "async_report \<Rightarrow> string option list" where
  "posted_slugs r = map (\<lambda>req. map_of (req_json req) ''slug'') (ar_posted r)"

text \<open>A standard output that takes every line, and one that refuses the check mark.\<close>

definition printing_fine :: "nat \<Rightarrow> exn option" where
  "printing_fine i = None"



text \<open>Targets that never answer, and that refuse the connection at once.\<close>

definition silent_target :: "post_request \<Rightarrow> target" where
  "silent_target req = Silent"

definition refusing_target :: "post_request \<Rightarrow> target" where
  "refusing_target req = Fails 0 (Exn ConnectionRefused ''Connection refused'')"

text \<open>
  A target that finds two successful resets in the burst; the single request of step 2
  of \<open>full_race_test.py\<close> is answered 400, so that a fresh token is fetched.
\<close>

definition post_invalid_token :: "post_request \<Rightarrow> requests_result" where
  "post_invalid_token req = Response 400 ''invalid token''"

text \<open>Bursts in which every invocation meets the same failing transport.\<close>

definition burst_timed_out :: "nat \<Rightarrow> post_request \<Rightarrow> requests_result" where
  "burst_timed_out i = post_timed_out"

definition burst_unavailable :: "nat \<Rightarrow> post_request \<Rightarrow> requests_result" where
  "burst_unavailable i = post_unavailable"

definition aio_burst_refused :: "nat \<Rightarrow> post_request \<Rightarrow> aio_result" where
  "aio_burst_refused i = aio_refused"

text \<open>A target that answers 200 to the resets 3 and 11 and 400 to the other ones.\<close>

definition burst_two_resets :: "nat \<Rightarrow> post_request \<Rightarrow> requests_result" where
  "burst_two_resets i req =
     (if i = 3 \<or> i = 11 then Response 200 ''password reset'' else Response 400 ''invalid token'')"

definition aio_burst_two_resets :: "nat \<Rightarrow> post_request \<Rightarrow> aio_result" where
  "aio_burst_two_resets i req =
     (if i = 3 \<or> i = 11 then Resp 200 (Inr (JObject [(''message'', ''password reset'')]))
      else Resp 400 (Inr (JObject [(''message'', ''invalid token'')])))"

definition reset_world_two_resets :: reset_world where
  "reset_world_two_resets =
     \<lparr> fw_first_token = Inr (Some ''0a1b2c''), fw_single = post_invalid_token,
       fw_second_token = Inr (Some ''3d4e5f''), fw_post = burst_two_resets \<rparr>"

text \<open>A target that creates the tenant for the requests 3 and 11.\<close>

definition tenant_world_two_winners :: tenant_world where
  "tenant_world_two_winners =
     \<lparr> tw_check = Inr (200, []), tw_delete = Inr 200,
       tw_post = (\<lambda>i req. if i = 3 \<or> i = 11 then Response 201 ''created''
                           else Response 409 ''conflict''),
       tw_verify = Inr (200, []) \<rparr>"

text \<open>Surroundings of \<open>precise_race_test.py\<close> and \<open>full_race_test.py\<close> in which every
  request of the burst times out.\<close>

definition precise_world_timed_out :: precise_world where
  "precise_world_timed_out =
     \<lparr> pw_cleanup_before = None, pw_post = burst_timed_out, pw_printing = printing_fine,
       pw_verify = None,
       pw_cleanup_after = None \<rparr>"

definition reset_world_timed_out :: reset_world where
  "reset_world_timed_out =
     \<lparr> fw_first_token = Inr (Some ''0a1b2c''), fw_single = post_timed_out,
       fw_second_token = Inr (Some ''3d4e5f''), fw_post = burst_timed_out \<rparr>"

text \<open>
  A gRPC target that serves the single request and then fails each of the 50
  concurrent ones with a non-zero return code.
\<close>

definition single_ok :: proc_result where
  "single_ok = Completed 0 ''{ accessToken: eyJhbGciOiJSUzI1NiJ9 }'' [] (AccessToken ''eyJhbGciOiJSUzI1NiJ9'')"

definition burst_all_error :: "nat \<Rightarrow> proc_result" where
  "burst_all_error i = Completed 1 [] ''rpc error: code = Unavailable'' NoAccessToken"

definition burst_all_ok :: "nat \<Rightarrow> proc_result" where
  "burst_all_ok i = single_ok"

definition elapsed_const :: "nat \<Rightarrow> real" where
  "elapsed_const i = 0.2"

section \<open>Properties\<close>

subsection \<open>Counting\<close>

lemma count_if_Nil [simp]: "count_if P [] = 0"
  by (simp add: count_if_def)

lemma count_if_Cons [simp]: "count_if P (x # xs) = (if P x then 1 else 0) + count_if P xs"
  by (simp add: count_if_def)

lemma count_if_nonneg: "0 \<le> count_if P xs"
  by (simp add: count_if_def)

lemma count_if_remainder:
  assumes "\<And>x. x \<in> set xs \<Longrightarrow> \<not> (P x \<and> Q x)"
  shows "int (length xs) - count_if P xs - count_if Q xs = count_if (\<lambda>x. \<not> P x \<and> \<not> Q x) xs"
  using assms by (induction xs) auto

subsection \<open>tenant_race_test.py\<close>

lemma tenant_race_test_report_fields:
  assumes "test_tenant_slug_race token w = Inr r"
  shows "tr_message r = fst (tenant_race_test_verdict (tr_success_count r) (tr_conflict_count r))"
    and "tr_return r = snd (tenant_race_test_verdict (tr_success_count r) (tr_conflict_count r))"
    and "length (tr_results r) = 20"
  using assms
  by (auto simp: test_tenant_slug_race_def Let_def split: sum.splits)

lemma tenant_world_one_winner_run:
  "\<exists>r. test_tenant_slug_race ''admin-token'' tenant_world_one_winner = Inr r
        \<and> tr_success_count r = 1 \<and> tr_conflict_count r = 19"
  by (simp add: test_tenant_slug_race_def tenant_world_one_winner_def
      tenant_race_test_cleanup_def Let_def tenant_race_test_create_tenant_def upt_rec)

text \<open>
  C9. In \<open>tenant_race_test.py\<close>, whose burst is 20 creations with the one slug
  \<open>race-test-slug\<close>: a run that reaches its verdict with a success count of 1 and a
  conflict count of 19 prints the PASS line, returns \<open>True\<close>, and the script exits
  with code 0.
\<close>

theorem tenant_race_one_success_nineteen_conflicts_pass:
  assumes "test_tenant_slug_race token w = Inr r"
    and "tr_success_count r = 1"
    and "tr_conflict_count r = 19"
  shows "length (tr_results r) = 20 \<and> tr_message r = TenantPass \<and> tr_return r
           \<and> tenant_race_test_main token w = 0"
  using assms tenant_race_test_report_fields [OF assms(1)]
  by (simp add: tenant_race_test_verdict_def tenant_race_test_main_def)

theorem tenant_race_one_success_nineteen_conflicts_pass_witness:
  "\<exists>r. test_tenant_slug_race ''admin-token'' tenant_world_one_winner = Inr r
        \<and> tr_success_count r = 1 \<and> tr_conflict_count r = 19
        \<and> length (tr_results r) = 20 \<and> tr_message r = TenantPass \<and> tr_return r
        \<and> tenant_race_test_main ''admin-token'' tenant_world_one_winner = 0"
proof -
  obtain r where r: "test_tenant_slug_race ''admin-token'' tenant_world_one_winner = Inr r"
    "tr_success_count r = 1" "tr_conflict_count r = 19"
    using tenant_world_one_winner_run by blast
  from tenant_race_one_success_nineteen_conflicts_pass [OF r] r show ?thesis
    by blast
qed

subsection \<open>race_test_tenant.py\<close>

lemma outcome_success_iff:
  "o_success (race_test_tenant_create_tenant post t token a b)
     = (o_status (race_test_tenant_create_tenant post t token a b) = 201)"
  by (simp add: race_test_tenant_create_tenant_def split: aio_result.splits sum.splits)

lemma outcome_of_raise:
  assumes "post (race_test_tenant_request token a) = PostRaised e"
  shows "o_status (race_test_tenant_create_tenant post t token a b) = 0"
    and "\<not> o_success (race_test_tenant_create_tenant post t token a b)"
    and "o_error (race_test_tenant_create_tenant post t token a b) = Some (str e)"
  using assms by (simp_all add: race_test_tenant_create_tenant_def)

lemma outcome_of_malformed_body:
  assumes "post (race_test_tenant_request token a) = Resp status (Inl e)"
  shows "o_status (race_test_tenant_create_tenant post t token a b) = 0"
    and "\<not> o_success (race_test_tenant_create_tenant post t token a b)"
    and "o_error (race_test_tenant_create_tenant post t token a b) = Some (str e)"
  using assms by (simp_all add: race_test_tenant_create_tenant_def)

lemma async_report_fields:
  assumes "race_test_tenant_main token w = Finished r"
  shows "ar_results r = race_test_tenant_tasks w token 20"
    and "ar_success_count r = count_if o_success (ar_results r)"
    and "ar_conflict_count r = count_if (\<lambda>x. o_status x = 409) (ar_results r)"
    and "ar_other_failure r = int (length (ar_results r)) - ar_success_count r - ar_conflict_count r"
    and "ar_assessment r = race_test_tenant_assessment (ar_success_count r) (ar_conflict_count r) (ar_final_count r)"
    and "ar_probed_slug r = ar_test_slug r"
    and "ar_test_slug r = (if ar_existing_count r > 0 then ''race-test-slug-new'' else ''race-test-slug'')"
    and "ar_posted r = map (\<lambda>i. race_test_tenant_request token (i + 1)) [0..<20]"
    and "print_details (take 10 (ar_results r)) = None"
  using assms
  by (auto simp: race_test_tenant_main_def Let_def split: if_splits sum.splits option.splits)

lemma async_counts:
  assumes "race_test_tenant_main token w = Finished r"
  shows "length (ar_results r) = 20"
    and "ar_success_count r + ar_conflict_count r + ar_other_failure r = 20"
    and "ar_other_failure r = count_if (\<lambda>x. \<not> o_success x \<and> o_status x \<noteq> 409) (ar_results r)"
proof -
  note f = async_report_fields [OF assms]
  show len: "length (ar_results r) = 20" by (simp add: f(1) race_test_tenant_tasks_def)
  show "ar_success_count r + ar_conflict_count r + ar_other_failure r = 20"
    using len by (simp add: f(4))
  have "\<And>x. x \<in> set (ar_results r) \<Longrightarrow> \<not> (o_success x \<and> o_status x = 409)"
    by (auto simp: f(1) race_test_tenant_tasks_def outcome_success_iff)
  from count_if_remainder [of "ar_results r" o_success "\<lambda>x. o_status x = 409", OF this]
  show "ar_other_failure r = count_if (\<lambda>x. \<not> o_success x \<and> o_status x \<noteq> 409) (ar_results r)"
    using f(2,3,4) by simp
qed

lemma async_main_finishes:
  assumes "token \<noteq> []"
    and "check_tenant_count (aw_search_before w) ''race-test-slug'' = Inr ec"
    and "print_details (take 10 (race_test_tenant_tasks w token 20)) = None"
    and "check_tenant_count (aw_search_after w)
           (if ec > 0 then ''race-test-slug-new'' else ''race-test-slug'') = Inr fc"
  shows "\<exists>r. race_test_tenant_main token w = Finished r
           \<and> ar_existing_count r = ec \<and> ar_final_count r = fc"
  using assms by (simp add: race_test_tenant_main_def Let_def)

lemma async_main_ends_on_list_body:
  assumes "token \<noteq> []"
    and "check_tenant_count (aw_search_before w) ''race-test-slug'' = Inr ec"
    and "print_details (take 10 (race_test_tenant_tasks w token 20)) = Some e"
  shows "race_test_tenant_main token w = Uncaught e"
  using assms by (simp add: race_test_tenant_main_def Let_def)

lemma posted_slugs_constant:
  assumes "race_test_tenant_main token w = Finished r"
  shows "posted_slugs r = replicate 20 (Some ''race-test-slug'')"
proof -
  have "posted_slugs r = map (\<lambda>i. Some ''race-test-slug'') [0..<20]"
    by (simp add: posted_slugs_def async_report_fields(8) [OF assms] race_test_tenant_request_def)
  then show ?thesis by (simp add: map_replicate_const)
qed

lemma dirty_details:
  "print_details (take 10 (race_test_tenant_tasks async_world_dirty ''admin-token'' 20)) = None"
  by (simp add: race_test_tenant_tasks_def async_world_dirty_def
      race_test_tenant_create_tenant_def upt_rec)

lemma dirty_run:
  "\<exists>r. race_test_tenant_main ''admin-token'' async_world_dirty = Finished r
        \<and> ar_existing_count r = 1 \<and> ar_final_count r = 0"
  by (rule async_main_finishes)
     (simp_all add: dirty_details, simp_all add: check_tenant_count_def async_world_dirty_def)

lemma two_rows_tasks:
  "count_if o_success (race_test_tenant_tasks async_world_two_rows ''admin-token'' 20) = 1"
  by (simp add: race_test_tenant_tasks_def async_world_two_rows_def
      race_test_tenant_create_tenant_def upt_rec)

lemma two_rows_details:
  "print_details (take 10 (race_test_tenant_tasks async_world_two_rows ''admin-token'' 20)) = None"
  by (simp add: race_test_tenant_tasks_def async_world_two_rows_def
      race_test_tenant_create_tenant_def upt_rec)

lemma two_rows_run:
  "\<exists>r. race_test_tenant_main ''admin-token'' async_world_two_rows = Finished r
        \<and> ar_existing_count r = 0 \<and> ar_final_count r = 2"
  by (rule async_main_finishes)
     (simp_all add: two_rows_details, simp_all add: check_tenant_count_def async_world_two_rows_def)

subsection \<open>precise_race_test.py\<close>

lemma create_tenant_chain:
  "fst (RaceTest_create_tenant post printing self i)
     = (let c = first_match precise_rules Other (post (RaceTest_request self i))
        in case printing of
             None \<Rightarrow> bump c self
           | Some e \<Rightarrow> if c = Success then bump Other (bump Success self) else bump c self)"
  by (simp add: RaceTest_create_tenant_def precise_rules_def Let_def
      split: requests_result.splits option.splits)

lemma create_tenant_is_bump:
  "fst (RaceTest_create_tenant post None self i)
     = bump (first_match precise_rules Other (post (RaceTest_request self i))) self"
  by (simp add: create_tenant_chain)

lemma create_tenant_of_raise:
  "post (RaceTest_request self i) = Raised e
     \<Longrightarrow> RaceTest_create_tenant post printing self i = (bump Other self, (0, str e))"
  by (simp add: RaceTest_create_tenant_def)

lemma total_bump: "total_count (bump c st) = total_count st + 1"
  by (cases c) (simp_all add: total_count_def)

lemma raising_print_counts_twice:
  assumes "post (RaceTest_request self i) = Response 201 text"
  shows "RaceTest_create_tenant post (Some e) self i
           = (bump Other (bump Success self), (0, str e))"
    and "total_count (fst (RaceTest_create_tenant post (Some e) self i)) = total_count self + 2"
  using assms by (simp_all add: RaceTest_create_tenant_def total_count_def)

lemma total_fold:
  assumes "\<forall>i \<in> set xs. printing i = None"
  shows "total_count (fold (\<lambda>i st. fst (RaceTest_create_tenant (post i) (printing i) st i)) xs st)
           = total_count st + int (length xs)"
  using assms by (induction xs arbitrary: st) (simp_all add: create_tenant_is_bump total_bump)

lemma burst_total:
  assumes "\<forall>i < n. printing i = None"
  shows "total_count (RaceTest_burst post printing st n) = total_count st + int n"
  using assms by (simp add: RaceTest_burst_def total_fold)

lemma raised_matches_no_rule:
  "first_match precise_rules Other (Raised e) = Other"
  by (simp add: precise_rules_def)

subsection \<open>Every invocation is counted once\<close>

text \<open>
  C1, as the scripts have it. In \<open>precise_race_test.py\<close>, for every number of requests
  and every behaviour of the target, the four counters of a fresh \<open>RaceTest\<close> add up to
  the number of invocations after the burst, and each invocation adds 1 to exactly one
  counter, as long as the print of the success line does not raise; an invocation
  whose post raises (a timeout, a refused connection) adds its 1 to \<open>other_count\<close>. In
  \<open>race_test_tenant.py\<close>, a run that reaches its report has 20 results, the three counts
  add up to 20, \<open>other_failure\<close> is the number of results that are neither a success
  nor a 409, and the dict returned for a post that raised is among those. Timeouts and
  transport exceptions are thus never dropped; they are counted in the catch-all
  category, together with the unmatched statuses. (When the print of the success line
  raises, the invocation is counted twice, which is \<open>raising_print_counts_twice\<close>.)
\<close>

theorem counts_partition_invocations:
  "((\<forall>i < n. printing i = None) \<longrightarrow>
      (let st = RaceTest_burst post printing (RaceTest_init admin_token now) n
       in self_success_count st + self_conflict_count st + self_db_error_count st
            + self_other_count st = int n))
   \<and> (\<exists>c. fst (RaceTest_create_tenant p None self i) = bump c self)
   \<and> (p (RaceTest_request self i) = Raised e
        \<longrightarrow> fst (RaceTest_create_tenant p pr self i) = bump Other self)
   \<and> (race_test_tenant_main token w = Finished r \<longrightarrow>
         length (ar_results r) = 20
         \<and> ar_success_count r + ar_conflict_count r + ar_other_failure r = 20
         \<and> ar_other_failure r
             = count_if (\<lambda>x. \<not> o_success x \<and> o_status x \<noteq> 409) (ar_results r))
   \<and> (q (race_test_tenant_request token a) = PostRaised e' \<longrightarrow>
         \<not> o_success (race_test_tenant_create_tenant q t token a b)
         \<and> o_status (race_test_tenant_create_tenant q t token a b) \<noteq> 409)"
proof -
  have burst: "let st = RaceTest_burst post printing (RaceTest_init admin_token now) n
       in self_success_count st + self_conflict_count st + self_db_error_count st
            + self_other_count st = int n"
    if quiet: "\<forall>i < n. printing i = None"
  proof -
    have "total_count (RaceTest_burst post printing (RaceTest_init admin_token now) n) = int n"
      by (simp add: burst_total [OF quiet]) (simp add: total_count_def RaceTest_init_def)
    then show ?thesis by (simp add: total_count_def Let_def)
  qed
  have one: "\<exists>c. fst (RaceTest_create_tenant p None self i) = bump c self"
    using create_tenant_is_bump [of p self i] by blast
  have raised: "fst (RaceTest_create_tenant p pr self i) = bump Other self"
    if "p (RaceTest_request self i) = Raised e"
    using that by (simp add: create_tenant_of_raise)
  have report: "length (ar_results r) = 20
         \<and> ar_success_count r + ar_conflict_count r + ar_other_failure r = 20
         \<and> ar_other_failure r
             = count_if (\<lambda>x. \<not> o_success x \<and> o_status x \<noteq> 409) (ar_results r)"
    if "race_test_tenant_main token w = Finished r"
    using async_counts [OF that] by simp
  have dict: "\<not> o_success (race_test_tenant_create_tenant q t token a b)
         \<and> o_status (race_test_tenant_create_tenant q t token a b) \<noteq> 409"
    if "q (race_test_tenant_request token a) = PostRaised e'"
    using that by (simp add: race_test_tenant_create_tenant_def)
  from burst one raised report dict show ?thesis by blast
qed

text \<open>
  C1 at a burst of 20 timeouts against \<open>precise_race_test.py\<close> and at the run of
  \<open>race_test_tenant.py\<close> against a target that answers 409 twenty times.
\<close>

theorem counts_partition_invocations_witness:
  "total_count (RaceTest_burst burst_timed_out printing_fine (RaceTest_init ''admin-token'' 17) 20)
     = 20
   \<and> fst (RaceTest_create_tenant post_timed_out None (RaceTest_init ''admin-token'' 17) 0)
       = bump Other (RaceTest_init ''admin-token'' 17)
   \<and> (\<exists>r. race_test_tenant_main ''admin-token'' async_world_dirty = Finished r
          \<and> ar_success_count r + ar_conflict_count r + ar_other_failure r = 20)
   \<and> \<not> o_success (race_test_tenant_create_tenant aio_timed_out 0 ''admin-token'' 1 1)"
proof -
  obtain r where r: "race_test_tenant_main ''admin-token'' async_world_dirty = Finished r"
    using dirty_run by blast
  have quiet: "\<forall>i < 20. printing_fine i = None"
    by (simp add: printing_fine_def)
  have raised: "post_timed_out (RaceTest_request (RaceTest_init ''admin-token'' 17) 0)
                  = Raised (Exn TimeoutExn ''Read timed out. (read timeout=10)'')"
    by (simp add: post_timed_out_def)
  have aio: "aio_timed_out (race_test_tenant_request ''admin-token'' 1)
               = PostRaised (Exn TimeoutExn ''TimeoutError'')"
    by (simp add: aio_timed_out_def)
  from counts_partition_invocations
         [where post = burst_timed_out and printing = printing_fine
            and admin_token = "''admin-token''" and now = 17
            and n = 20 and p = post_timed_out and self = "RaceTest_init ''admin-token'' 17"
            and i = 0 and pr = None
            and e = "Exn TimeoutExn ''Read timed out. (read timeout=10)''"
            and token = "''admin-token''" and w = async_world_dirty and r = r
            and q = aio_timed_out and a = 1 and e' = "Exn TimeoutExn ''TimeoutError''"
            and t = 0 and b = 1]
  show ?thesis using r quiet raised aio by (auto simp: total_count_def Let_def)
qed

text \<open>
  C1 as stated fails: timeouts and transport exceptions have no category of their own.
  In \<open>precise_race_test.py\<close> a post that times out and a post answered 503 leave the
  same state behind, both having added 1 to \<open>other_count\<close>.
\<close>

theorem exception_shares_counter_with_unmatched_status:
  "fst (RaceTest_create_tenant post_timed_out None (RaceTest_init ''admin-token'' 17) 0)
     = fst (RaceTest_create_tenant post_unavailable None (RaceTest_init ''admin-token'' 17) 0)"
  by (simp add: RaceTest_create_tenant_def post_timed_out_def post_unavailable_def)

subsection \<open>The assessment of race_test_tenant.py\<close>

lemma assessment_abnormal_iff:
  "(race_test_tenant_assessment s c f = Abnormal s f)
     = (\<not> 1 < s \<and> \<not> (s = 1 \<and> f = 1) \<and> \<not> (s = 0 \<and> 0 < c))"
  by (simp add: race_test_tenant_assessment_def)

text \<open>
  C4, as the script has it. In \<open>race_test_tenant.py\<close>, with one success the assessment
  compares the count found by the search after the burst with 1: it is the \<open>Safe\<close> line
  when they agree and otherwise the last line of the chain, which prints the success
  count and the final count. That last line is the one for everything the three
  branches before it leave over; more than one success always gives the
  race-condition line. A run with one success and a final count of 2 therefore ends
  with the line \<open>Abnormal 1 2\<close>, which is neither \<open>Safe\<close> nor the race-condition line,
  and with exit code 0.
\<close>

theorem one_success_other_final_count_reported_abnormal:
  "race_test_tenant_assessment 1 c f = (if f = 1 then Safe else Abnormal 1 f)
   \<and> (race_test_tenant_assessment s c f = Abnormal s f)
       = (\<not> 1 < s \<and> \<not> (s = 1 \<and> f = 1) \<and> \<not> (s = 0 \<and> 0 < c))
   \<and> (1 < s \<longrightarrow> race_test_tenant_assessment s c f = RaceConditionVulnerability s f)
   \<and> (race_test_tenant_main token w = Finished r \<and> ar_success_count r = 1 \<and> ar_final_count r = 2
        \<longrightarrow> ar_assessment r = Abnormal 1 2 \<and> race_test_tenant_exit_code token w = 0)"
proof -
  have "ar_assessment r = Abnormal 1 2 \<and> race_test_tenant_exit_code token w = 0"
    if a: "race_test_tenant_main token w = Finished r \<and> ar_success_count r = 1
             \<and> ar_final_count r = 2"
    using a async_report_fields(5) [of token w r]
    by (simp add: race_test_tenant_assessment_def race_test_tenant_exit_code_def)
  then show ?thesis
    using assessment_abnormal_iff [of s c f]
    by (simp add: race_test_tenant_assessment_def)
qed

text \<open>
  C4 at a run with one 201, nineteen 409 and two tenants found after the burst,
  compared with the report for three successes.
\<close>

theorem one_success_other_final_count_reported_abnormal_witness:
  "\<exists>r. race_test_tenant_main ''admin-token'' async_world_two_rows = Finished r
        \<and> ar_success_count r = 1 \<and> ar_final_count r = 2
        \<and> ar_assessment r = Abnormal 1 2
        \<and> race_test_tenant_exit_code ''admin-token'' async_world_two_rows = 0
        \<and> race_test_tenant_assessment 3 17 3 = RaceConditionVulnerability 3 3"
proof -
  obtain r where r: "race_test_tenant_main ''admin-token'' async_world_two_rows = Finished r"
    "ar_final_count r = 2"
    using two_rows_run by blast
  have s: "ar_success_count r = 1"
    using async_report_fields(1,2) [OF r(1)] two_rows_tasks by simp
  from one_success_other_final_count_reported_abnormal
         [where s = 3 and c = 17 and f = 3 and token = "''admin-token''"
            and w = async_world_two_rows and r = r] r s
  show ?thesis by auto
qed

text \<open>
  C4 as stated fails. One success with two tenants found gets the line \<open>Abnormal\<close>, the
  same line as a run with no success, no conflict and no tenant found, where nothing
  disagrees; no success with twenty conflicts and one tenant found, where the counts
  do disagree, gets the line \<open>AllConflict\<close>; and the script ends with exit code 0
  after the \<open>Abnormal\<close> line, so no Fail is returned.
\<close>

theorem mismatch_gets_the_catch_all_line:
  "race_test_tenant_assessment 1 19 2 = Abnormal 1 2
   \<and> race_test_tenant_assessment 0 0 0 = Abnormal 0 0
   \<and> race_test_tenant_assessment 0 20 1 = AllConflict
   \<and> map_option ar_assessment
        (finished (race_test_tenant_main ''admin-token'' async_world_two_rows))
       = Some (Abnormal 1 2)
   \<and> race_test_tenant_exit_code ''admin-token'' async_world_two_rows = 0"
proof -
  obtain r where r: "race_test_tenant_main ''admin-token'' async_world_two_rows = Finished r"
    "ar_final_count r = 2"
    using two_rows_run by blast
  have s: "ar_success_count r = 1"
    using async_report_fields(1,2) [OF r(1)] two_rows_tasks by simp
  show ?thesis
    using r s async_report_fields(5) [OF r(1)]
    by (simp add: race_test_tenant_assessment_def race_test_tenant_exit_code_def)
qed

subsection \<open>The slug of the burst and the slug of the probe\<close>

text \<open>
  C8 at a target that already holds a tenant with the slug \<open>race-test-slug\<close>:
  \<open>main\<close> finds it (\<open>existing_count\<close> is 1) and announces \<open>race-test-slug-new\<close> as the
  slug of the test, yet each of the 20 requests it posts carries \<open>race-test-slug\<close>,
  and the search after the burst asks for \<open>race-test-slug-new\<close>.
\<close>

theorem dirty_slug_still_dispatched:
  "map_option ar_existing_count
       (finished (race_test_tenant_main ''admin-token'' async_world_dirty)) = Some 1
   \<and> map_option ar_test_slug
       (finished (race_test_tenant_main ''admin-token'' async_world_dirty))
       = Some ''race-test-slug-new''
   \<and> map_option posted_slugs
       (finished (race_test_tenant_main ''admin-token'' async_world_dirty))
       = Some (replicate 20 (Some ''race-test-slug''))
   \<and> map_option ar_probed_slug
       (finished (race_test_tenant_main ''admin-token'' async_world_dirty))
       = Some ''race-test-slug-new''"
proof -
  obtain r where r: "race_test_tenant_main ''admin-token'' async_world_dirty = Finished r"
    "ar_existing_count r = 1"
    using dirty_run by blast
  show ?thesis
    using r posted_slugs_constant [OF r(1)] async_report_fields(6,7) [OF r(1)] by simp
qed

subsection \<open>A run without a success\<close>

lemma run_test_result:
  assumes "run_test w self n = Inr (st, accounted, ok)"
  shows "st = RaceTest_burst (pw_post w) (pw_printing w) self n"
    and "ok = (self_success_count st = 1)"
    and "accounted = (self_success_count st + self_conflict_count st + self_db_error_count st = int n)"
  using assms by (auto simp: run_test_def Let_def split: option.splits)

lemma run_test_returns:
  assumes "pw_cleanup_before w = None" and "pw_verify w = None" and "pw_cleanup_after w = None"
  shows "\<exists>st accounted ok. run_test w self n = Inr (st, accounted, ok)"
  using assms by (simp add: run_test_def Let_def)

lemma full_race_test_burst_fields:
  assumes "full_race_test_burst post token = (rep, ok)"
  shows "rr_message rep = fst (full_race_test_verdict (rr_success_count rep))"
    and "ok = snd (full_race_test_verdict (rr_success_count rep))"
    and "length (rr_results rep) = 50"
    and "rr_success_count rep + rr_error_count rep + rr_other_count rep = 50"
  using assms by (auto simp: full_race_test_burst_def Let_def)

lemma test_concurrent_reset_fields:
  assumes "test_concurrent_reset fw = Inr (Some rep, ok)"
  shows "rr_message rep = fst (full_race_test_verdict (rr_success_count rep))"
    and "ok = snd (full_race_test_verdict (rr_success_count rep))"
    and "length (rr_results rep) = 50"
proof -
  from assms obtain token where "full_race_test_burst (fw_post fw) token = (rep, ok)"
    by (auto simp: test_concurrent_reset_def split: sum.splits option.splits prod.splits if_splits)
  from full_race_test_burst_fields [OF this]
  show "rr_message rep = fst (full_race_test_verdict (rr_success_count rep))"
    and "ok = snd (full_race_test_verdict (rr_success_count rep))"
    and "length (rr_results rep) = 50"
    by simp_all
qed

lemma burst_timed_out_state:
  "RaceTest_burst burst_timed_out printing_fine (RaceTest_init ''admin-token'' 17) 20
     = (RaceTest_init ''admin-token'' 17)\<lparr> self_other_count := 20 \<rparr>"
  by (simp add: RaceTest_burst_def burst_timed_out_def post_timed_out_def
      RaceTest_create_tenant_def RaceTest_init_def upt_rec)

lemma precise_timed_out_run:
  "run_test precise_world_timed_out (RaceTest_init ''admin-token'' 17) 20
     = Inr ((RaceTest_init ''admin-token'' 17)\<lparr> self_other_count := 20 \<rparr>, False, False)"
  by (simp add: run_test_def precise_world_timed_out_def Let_def burst_timed_out_state)
     (simp add: RaceTest_init_def)

lemma full_timed_out_burst:
  "\<exists>rep. full_race_test_burst burst_timed_out ''3d4e5f'' = (rep, False)
         \<and> rr_success_count rep = 0 \<and> rr_error_count rep = 0"
  by (simp add: full_race_test_burst_def Let_def burst_timed_out_def post_timed_out_def
      full_race_test_reset_password_def full_race_test_verdict_def upt_rec)

lemma full_timed_out_run:
  "\<exists>rep. test_concurrent_reset reset_world_timed_out = Inr (Some rep, False)
         \<and> rr_success_count rep = 0 \<and> rr_error_count rep = 0"
proof -
  obtain rep where rep: "full_race_test_burst burst_timed_out ''3d4e5f'' = (rep, False)"
    "rr_success_count rep = 0" "rr_error_count rep = 0"
    using full_timed_out_burst by blast
  have "test_concurrent_reset reset_world_timed_out = Inr (Some rep, False)"
    by (simp add: test_concurrent_reset_def reset_world_timed_out_def
        full_race_test_reset_password_def post_timed_out_def rep(1))
  with rep show ?thesis by blast
qed

text \<open>
  C2, as the scripts have it. In \<open>precise_race_test.py\<close> a run of 20 requests that ends
  with a success count of 0 and a conflict count of 0 makes \<open>run_test\<close> return \<open>False\<close>,
  and the script announces \<open>TEST FAILED\<close> and exits with 1. In \<open>full_race_test.py\<close> a
  burst with no status 200 and no status 400 or 404 prints the line
  \<open>FAIL: No successful resets\<close>, returns \<open>False\<close>, and the script exits with 1. Such a run
  is never judged Pass; the judgment is Fail.
\<close>

theorem zero_successes_judged_fail:
  "(run_test w (RaceTest_init admin_token now) 20 = Inr (st, accounted, ok)
      \<and> self_success_count st = 0 \<and> self_conflict_count st = 0
     \<longrightarrow> \<not> ok \<and> precise_race_test_main admin_token now w = Inr (Fail, 1))
   \<and> (test_concurrent_reset fw = Inr (Some rep, ok')
      \<and> rr_success_count rep = 0 \<and> rr_error_count rep = 0
     \<longrightarrow> rr_message rep = ResetFailNoSuccessfulResets \<and> \<not> ok' \<and> full_race_test_main fw = 1)"
proof -
  have precise: "\<not> ok \<and> precise_race_test_main admin_token now w = Inr (Fail, 1)"
    if a: "run_test w (RaceTest_init admin_token now) 20 = Inr (st, accounted, ok)
             \<and> self_success_count st = 0 \<and> self_conflict_count st = 0"
    using a run_test_result(2) [of w "RaceTest_init admin_token now" 20 st accounted ok]
    by (simp add: precise_race_test_main_def)
  have full: "rr_message rep = ResetFailNoSuccessfulResets \<and> \<not> ok' \<and> full_race_test_main fw = 1"
    if b: "test_concurrent_reset fw = Inr (Some rep, ok')
             \<and> rr_success_count rep = 0 \<and> rr_error_count rep = 0"
    using b test_concurrent_reset_fields(1,2) [of fw rep ok']
    by (simp add: full_race_test_verdict_def full_race_test_main_def)
  from precise full show ?thesis by blast
qed

text \<open>
  C2 at bursts in which every request times out, for both scripts.
\<close>

theorem zero_successes_judged_fail_witness:
  "precise_race_test_main ''admin-token'' 17 precise_world_timed_out = Inr (Fail, 1)
   \<and> (\<exists>rep. test_concurrent_reset reset_world_timed_out = Inr (Some rep, False)
          \<and> rr_success_count rep = 0 \<and> rr_error_count rep = 0
          \<and> rr_message rep = ResetFailNoSuccessfulResets)
   \<and> full_race_test_main reset_world_timed_out = 1"
proof -
  obtain rep where rep: "test_concurrent_reset reset_world_timed_out = Inr (Some rep, False)"
    "rr_success_count rep = 0" "rr_error_count rep = 0"
    using full_timed_out_run by blast
  from zero_successes_judged_fail
         [where w = precise_world_timed_out and admin_token = "''admin-token''" and now = 17
            and st = "(RaceTest_init ''admin-token'' 17)\<lparr> self_other_count := 20 \<rparr>"
            and accounted = False and ok = False
            and fw = reset_world_timed_out and rep = rep and ok' = False]
       precise_timed_out_run rep
  show ?thesis by (auto simp: RaceTest_init_def)
qed

text \<open>
  C2 as stated fails: when all 20 requests time out, \<open>precise_race_test.py\<close> announces
  the judgment Fail with exit code 1, the one it also gives a run with several
  successes, and \<open>full_race_test.py\<close> exits with 1 after its \<open>FAIL\<close> line; neither
  reports a judgment Inconclusive.
\<close>

theorem all_timeouts_judged_fail_not_inconclusive:
  "precise_race_test_main ''admin-token'' 17 precise_world_timed_out = Inr (Fail, 1)
   \<and> full_race_test_main reset_world_timed_out = 1"
proof -
  obtain rep where rep: "test_concurrent_reset reset_world_timed_out = Inr (Some rep, False)"
    using full_timed_out_run by blast
  show ?thesis
    by (simp add: precise_race_test_main_def precise_timed_out_run full_race_test_main_def rep)
qed

subsection \<open>More than one success\<close>

lemma gather_length: "gather rs = Inr vs \<Longrightarrow> length vs = length rs"
proof (induction rs arbitrary: vs)
  case Nil
  then show ?case by simp
next
  case (Cons r rs)
  then show ?case by (cases r) (auto split: sum.splits)
qed

lemma race_test_simple_main_fields:
  "rr_message (race_test_simple_main p)
     = race_test_simple_verdict (rr_success_count (race_test_simple_main p))"
  "length (rr_results (race_test_simple_main p)) = 50"
  by (simp_all add: race_test_simple_main_def Let_def)

lemma two_winners_run:
  "\<exists>r. test_tenant_slug_race ''admin-token'' tenant_world_two_winners = Inr r
        \<and> tr_success_count r = 2"
  by (simp add: test_tenant_slug_race_def tenant_world_two_winners_def
      tenant_race_test_cleanup_def Let_def tenant_race_test_create_tenant_def upt_rec)

lemma two_resets_gather:
  "\<exists>results. gather (map (\<lambda>i. reset (aio_burst_two_resets i) i) [0..<50]) = Inr results
        \<and> count_if (\<lambda>status. status = 200) results = 2"
  by (simp add: reset_def aio_burst_two_resets_def upt_rec)

lemma two_resets_simple:
  "rr_success_count (race_test_simple_main burst_two_resets) = 2"
  by (simp add: race_test_simple_main_def Let_def burst_two_resets_def
      race_test_simple_reset_password_def upt_rec)

lemma multiple_successes_fail_where_a_result_is_returned:
  "1 < s \<Longrightarrow> tenant_race_test_verdict s c = (TenantRaceConditionDetected s, False)"
  "test_tenant_slug_race token w = Inr r \<Longrightarrow> 1 < tr_success_count r
     \<Longrightarrow> tr_message r = TenantRaceConditionDetected (tr_success_count r)
         \<and> \<not> tr_return r \<and> tenant_race_test_main token w = 1"
  "gather (map (\<lambda>i. reset (post i) i) [0..<50]) = Inr results
     \<Longrightarrow> 1 < count_if (\<lambda>status. status = 200) results
     \<Longrightarrow> race_test_main post
           = AssertionError_RACE_CONDITION (count_if (\<lambda>status. status = 200) results)"
  "1 < s \<Longrightarrow> full_race_test_verdict s = (ResetRaceConditionDetected s, False)"
proof -
  show verdict: "tenant_race_test_verdict s c = (TenantRaceConditionDetected s, False)"
    if "1 < s" for s c
    using that by (simp add: tenant_race_test_verdict_def)
  show "tr_message r = TenantRaceConditionDetected (tr_success_count r)
         \<and> \<not> tr_return r \<and> tenant_race_test_main token w = 1"
    if "test_tenant_slug_race token w = Inr r" and "1 < tr_success_count r"
    using that tenant_race_test_report_fields(1,2) [of token w r]
    by (simp add: verdict tenant_race_test_main_def)
  show "race_test_main post
           = AssertionError_RACE_CONDITION (count_if (\<lambda>status. status = 200) results)"
    if "gather (map (\<lambda>i. reset (post i) i) [0..<50]) = Inr results"
      and "1 < count_if (\<lambda>status. status = 200) results"
    using that by (simp add: race_test_main_def Let_def)
  show "full_race_test_verdict s = (ResetRaceConditionDetected s, False)" if "1 < s"
    using that by (simp add: full_race_test_verdict_def)
qed

lemma race_test_simple_always_exits_0: "race_test_simple_exit_code post = 0"
  by (simp add: race_test_simple_exit_code_def)

lemma two_resets_full_burst:
  "\<exists>rep. full_race_test_burst burst_two_resets ''3d4e5f'' = (rep, False)
         \<and> rr_success_count rep = 2"
  by (simp add: full_race_test_burst_def Let_def burst_two_resets_def
      full_race_test_reset_password_def full_race_test_verdict_def upt_rec)

lemma two_resets_full_run: "full_race_test_main reset_world_two_resets = 1"
proof -
  obtain rep where rep: "full_race_test_burst burst_two_resets ''3d4e5f'' = (rep, False)"
    using two_resets_full_burst by blast
  have "test_concurrent_reset reset_world_two_resets = Inr (Some rep, False)"
    by (simp add: test_concurrent_reset_def reset_world_two_resets_def
        full_race_test_reset_password_def post_invalid_token_def rep)
  then show ?thesis by (simp add: full_race_test_main_def)
qed

text \<open>
  C3 at a burst in which two of the 50 resets are answered 200, for
  \<open>race_test_simple.py\<close>: \<open>main\<close> prints the line \<open>RACE CONDITION DETECTED\<close> with the
  count 2, returns nothing, and the script ends with exit code 0, as it does on every
  run. On the same answers \<open>full_race_test.py\<close>, whose chain is the same, returns
  \<open>False\<close> and exits with 1. (In \<open>tenant_race_test.py\<close> and \<open>race_test.py\<close> a success
  count above 1 does end in a failure, whatever the other counts are:
  \<open>multiple_successes_fail_where_a_result_is_returned\<close>.)
\<close>

theorem race_test_simple_detects_race_and_exits_0:
  "rr_success_count (race_test_simple_main burst_two_resets) = 2
   \<and> rr_message (race_test_simple_main burst_two_resets) = ResetRaceConditionDetected 2
   \<and> race_test_simple_exit_code burst_two_resets = 0
   \<and> full_race_test_main reset_world_two_resets = 1"
  using two_resets_simple two_resets_full_run
  by (simp add: race_test_simple_main_fields(1) race_test_simple_verdict_def
      race_test_simple_always_exits_0)

subsection \<open>An invoker without a guard\<close>

lemma reset_raises_iff:
  "(reset post i = Inl e) = (post (race_test_request i) = PostRaised e)"
  by (simp add: reset_def split: aio_result.splits)

lemma race_test_main_propagates:
  assumes "post 0 (race_test_request 0) = PostRaised e"
  shows "race_test_main post = Propagated e"
proof -
  have "[0..<50] = 0 # [1..<50]" by (simp add: upt_rec)
  then have "gather (map (\<lambda>i. reset (post i) i) [0..<50]) = Inl e"
    using assms by (simp add: reset_def)
  then show ?thesis by (simp add: race_test_main_def)
qed

lemma guarded_invokers_return_key_0:
  "p (tenant_race_test_request token i) = Raised e
     \<Longrightarrow> tenant_race_test_create_tenant p token i = (0, str e)"
  "q (race_test_tenant_request token a) = PostRaised e
     \<Longrightarrow> o_status (race_test_tenant_create_tenant q t token a b) = 0"
  "q (race_test_tenant_request token a) = Resp status (Inl e)
     \<Longrightarrow> o_status (race_test_tenant_create_tenant q t token a b) = 0"
  by (simp_all add: tenant_race_test_create_tenant_def race_test_tenant_create_tenant_def)


text \<open>
  C5 at a refused connection, for \<open>race_test.py\<close>: \<open>reset\<close> has no \<open>try\<close>, so the
  exception of \<open>session.post\<close> leaves \<open>reset\<close>, passes through the gathering and ends
  \<open>main\<close> before any line of the report is printed. (The two \<open>create_tenant\<close>
  of \<open>tenant_race_test.py\<close> and \<open>race_test_tenant.py\<close> catch it and return the key 0,
  which is \<open>guarded_invokers_return_key_0\<close>.)
\<close>

theorem reset_lets_exception_escape:
  "reset aio_refused 0 = Inl (Exn ConnectionRefused ''Cannot connect to host localhost:8080'')
   \<and> race_test_main aio_burst_refused
       = Propagated (Exn ConnectionRefused ''Cannot connect to host localhost:8080'')"
proof -
  have raised: "aio_burst_refused 0 (race_test_request 0)
                  = PostRaised (Exn ConnectionRefused ''Cannot connect to host localhost:8080'')"
    by (simp add: aio_burst_refused_def aio_refused_def)
  have "reset aio_refused 0 = Inl (Exn ConnectionRefused ''Cannot connect to host localhost:8080'')"
    by (simp add: reset_def aio_refused_def)
  moreover have "race_test_main aio_burst_refused
                   = Propagated (Exn ConnectionRefused ''Cannot connect to host localhost:8080'')"
    by (rule race_test_main_propagates [of aio_burst_refused, OF raised])
  ultimately show ?thesis by simp
qed

subsection \<open>Timeouts\<close>

lemma exchange_token_timeout_iff:
  "(fst (exchange_token run t) = ''timeout'') = (run = TimeoutExpired)"
  by (simp add: exchange_token_def split: proc_result.splits token_lookup.splits)

lemma subprocess_run_with_timeout:
  "\<exists>run elapsed. subprocess_run (Some limit) proc = Some (run, elapsed)
      \<and> (run = TimeoutExpired) = expires limit proc"
  by (cases proc) (simp_all add: subprocess_run_def)

lemma subprocess_run_without_timeout: "subprocess_run None Runs_on = None"
  by (simp add: subprocess_run_def)

lemma exchange_token_on_returns:
  "\<exists>out. exchange_token_on proc = Some out \<and> (fst out = ''timeout'') = expires 10 proc"
proof -
  obtain run elapsed where r: "subprocess_run (Some 10) proc = Some (run, elapsed)"
    "(run = TimeoutExpired) = expires 10 proc"
    using subprocess_run_with_timeout by blast
  then show ?thesis
    by (simp add: exchange_token_on_def exchange_token_timeout_iff)
qed

lemma exchange_token_on_expiry:
  "expires 10 proc \<Longrightarrow> exchange_token_on proc = Some (''timeout'', 10, ''Timeout'')"
  by (cases proc) (simp_all add: exchange_token_on_def subprocess_run_def exchange_token_def)

lemma requests_post_returns:
  "req_timeout req = Some limit \<Longrightarrow> \<exists>reply. requests_post tgt req = Some reply"
  by (simp add: requests_post_def split: target.splits)

lemma requests_post_overdue:
  "req_timeout req = Some limit \<Longrightarrow> overdue limit (tgt req)
     \<Longrightarrow> requests_post tgt req = Some (Raised (Exn TimeoutExn ''Read timed out.''))"
  by (simp add: requests_post_def)

lemma requests_post_without_timeout:
  "req_timeout req = None \<Longrightarrow> tgt req = Silent \<Longrightarrow> requests_post tgt req = None"
  by (simp add: requests_post_def)

lemma invoke_returns:
  "req_timeout req = Some limit \<Longrightarrow> \<exists>out. invoke tgt req invoker = Some out"
  using requests_post_returns [of req limit tgt] by (auto simp: invoke_def)

text \<open>
  C6, as the scripts have it. The gRPC invoker \<open>exchange_token\<close> and the four invokers
  built on \<open>requests.post\<close> each pass a timeout of their own to the call they make: 10
  seconds in \<open>exchange_token\<close> and in the \<open>create_tenant\<close> of \<open>tenant_race_test.py\<close> and
  of \<open>precise_race_test.py\<close>, 5 seconds in the \<open>reset_password\<close> of
  \<open>race_test_simple.py\<close> and of \<open>full_race_test.py\<close>. Against every target, also one
  that never answers, each of them returns. A call that is still open at the deadline
  resolves, in \<open>exchange_token\<close>, to the result type \<open>timeout\<close>, which no other outcome
  gets; in the four HTTP invokers it resolves to what they return for any other
  exception, the status 0 with the text of the exception (and 1 more in
  \<open>other_count\<close>).
\<close>

theorem invokers_return_at_their_deadline:
  "(\<exists>out. exchange_token_on proc = Some out \<and> (fst out = ''timeout'') = expires 10 proc)
   \<and> (expires 10 proc \<longrightarrow> exchange_token_on proc = Some (''timeout'', 10, ''Timeout''))
   \<and> (\<exists>out. tenant_race_test_create_tenant_on tgt token i = Some out)
   \<and> (overdue 10 (tgt (tenant_race_test_request token i))
        \<longrightarrow> tenant_race_test_create_tenant_on tgt token i = Some (0, ''Read timed out.''))
   \<and> (\<exists>out. race_test_simple_reset_password_on tgt i = Some out)
   \<and> (overdue 5 (tgt (race_test_simple_request i))
        \<longrightarrow> race_test_simple_reset_password_on tgt i = Some (0, ''Read timed out.''))
   \<and> (\<exists>out. full_race_test_reset_password_on tgt token password_suffix = Some out)
   \<and> (overdue 5 (tgt (full_race_test_request token password_suffix))
        \<longrightarrow> full_race_test_reset_password_on tgt token password_suffix
              = Some (0, ''Read timed out.''))
   \<and> (\<exists>out. RaceTest_create_tenant_on tgt pr self i = Some out)
   \<and> (overdue 10 (tgt (RaceTest_request self i))
        \<longrightarrow> RaceTest_create_tenant_on tgt pr self i
              = Some (bump Other self, (0, ''Read timed out.'')))"
proof -
  have t1: "req_timeout (tenant_race_test_request token i) = Some 10"
    by (simp add: tenant_race_test_request_def)
  have t2: "req_timeout (race_test_simple_request i) = Some 5"
    by (simp add: race_test_simple_request_def)
  have t3: "req_timeout (full_race_test_request token password_suffix) = Some 5"
    by (simp add: full_race_test_request_def)
  have t4: "req_timeout (RaceTest_request self i) = Some 10"
    by (simp add: RaceTest_request_def)
  have r1: "\<exists>out. tenant_race_test_create_tenant_on tgt token i = Some out"
    unfolding tenant_race_test_create_tenant_on_def using invoke_returns [of "tenant_race_test_request token i" 10 tgt, OF t1] by blast
  have r2: "\<exists>out. race_test_simple_reset_password_on tgt i = Some out"
    unfolding race_test_simple_reset_password_on_def using invoke_returns [of "race_test_simple_request i" 5 tgt, OF t2] by blast
  have r3: "\<exists>out. full_race_test_reset_password_on tgt token password_suffix = Some out"
    unfolding full_race_test_reset_password_on_def using invoke_returns [of "full_race_test_request token password_suffix" 5 tgt, OF t3] by blast
  have r4: "\<exists>out. RaceTest_create_tenant_on tgt pr self i = Some out"
    unfolding RaceTest_create_tenant_on_def using invoke_returns [of "RaceTest_request self i" 10 tgt, OF t4] by blast
  have o1: "tenant_race_test_create_tenant_on tgt token i = Some (0, ''Read timed out.'')"
    if "overdue 10 (tgt (tenant_race_test_request token i))"
    using requests_post_overdue [of "tenant_race_test_request token i" 10 tgt, OF t1 that]
    by (simp add: tenant_race_test_create_tenant_on_def invoke_def
        tenant_race_test_create_tenant_def)
  have o2: "race_test_simple_reset_password_on tgt i = Some (0, ''Read timed out.'')"
    if "overdue 5 (tgt (race_test_simple_request i))"
    using requests_post_overdue [of "race_test_simple_request i" 5 tgt, OF t2 that]
    by (simp add: race_test_simple_reset_password_on_def invoke_def
        race_test_simple_reset_password_def)
  have o3: "full_race_test_reset_password_on tgt token password_suffix
              = Some (0, ''Read timed out.'')"
    if "overdue 5 (tgt (full_race_test_request token password_suffix))"
    using requests_post_overdue [of "full_race_test_request token password_suffix" 5 tgt, OF t3 that]
    by (simp add: full_race_test_reset_password_on_def invoke_def
        full_race_test_reset_password_def)
  have o4: "RaceTest_create_tenant_on tgt pr self i
              = Some (bump Other self, (0, ''Read timed out.''))"
    if "overdue 10 (tgt (RaceTest_request self i))"
    using requests_post_overdue [of "RaceTest_request self i" 10 tgt, OF t4 that]
    by (simp add: RaceTest_create_tenant_on_def invoke_def RaceTest_create_tenant_def)
  from exchange_token_on_returns [of proc] exchange_token_on_expiry [of proc]
       r1 r2 r3 r4 o1 o2 o3 o4
  show ?thesis by blast
qed

text \<open>
  C6 at a command that never exits and at a target that never answers.
\<close>

theorem invokers_return_at_their_deadline_witness:
  "exchange_token_on Runs_on = Some (''timeout'', 10, ''Timeout'')
   \<and> tenant_race_test_create_tenant_on silent_target ''admin-token'' 4
       = Some (0, ''Read timed out.'')
   \<and> race_test_simple_reset_password_on silent_target 4 = Some (0, ''Read timed out.'')
   \<and> full_race_test_reset_password_on silent_target ''admin-token'' ''4''
       = Some (0, ''Read timed out.'')
   \<and> RaceTest_create_tenant_on silent_target None (RaceTest_init ''admin-token'' 17) 4
       = Some (bump Other (RaceTest_init ''admin-token'' 17), (0, ''Read timed out.''))"
proof -
  have e: "expires 10 Runs_on" by simp
  have s: "overdue 10 (silent_target req)" "overdue 5 (silent_target req)" for req
    by (simp_all add: silent_target_def)
  from invokers_return_at_their_deadline
         [where proc = Runs_on and tgt = silent_target and token = "''admin-token''"
            and i = 4 and password_suffix = "''4''" and pr = None
            and self = "RaceTest_init ''admin-token'' 17"]
       e s
  show ?thesis by simp
qed

text \<open>
  C6 as stated fails: an HTTP invoker has no Timeout key. The \<open>create_tenant\<close> of
  \<open>tenant_race_test.py\<close> returns the status 0 for a target that never answers, as it
  does for a target that refuses the connection; only the text differs.
\<close>

theorem http_timeout_has_no_key_of_its_own:
  "tenant_race_test_create_tenant_on silent_target ''admin-token'' 1
     = Some (0, ''Read timed out.'')
   \<and> tenant_race_test_create_tenant_on refusing_target ''admin-token'' 1
     = Some (0, ''Connection refused'')"
  by (simp add: tenant_race_test_create_tenant_on_def invoke_def requests_post_def
      tenant_race_test_request_def silent_target_def refusing_target_def
      tenant_race_test_create_tenant_def)

subsection \<open>The chains as ordered rules\<close>

lemma first_match_hit:
  assumes "j < length rules" and "fst (rules ! j) x" and "\<And>k. k < j \<Longrightarrow> \<not> fst (rules ! k) x"
  shows "first_match rules dflt x = snd (rules ! j)"
  using assms
proof (induction rules arbitrary: j)
  case Nil
  then show ?case by simp
next
  case (Cons rule rules)
  obtain p v where rule: "rule = (p, v)" by (cases rule)
  show ?case
  proof (cases j)
    case 0
    with Cons.prems rule show ?thesis by simp
  next
    case (Suc j')
    from Cons.prems(3) [of 0] Suc rule have "\<not> p x" by simp
    moreover have "first_match rules dflt x = snd (rules ! j')"
    proof (rule Cons.IH)
      show "j' < length rules" using Cons.prems(1) Suc by simp
      show "fst (rules ! j') x" using Cons.prems(2) Suc by simp
      show "\<not> fst (rules ! k) x" if "k < j'" for k
        using Cons.prems(3) [of "Suc k"] that Suc by simp
    qed
    ultimately show ?thesis using rule Suc by simp
  qed
qed





subsection \<open>The gRPC counters\<close>

text \<open>
  On a fresh instance \<open>run_test\<close> returns \<open>True\<close> exactly when one of its requests is a
  success (\<open>grpc_run_test_fresh\<close>), and any number of successes keeps it \<open>True\<close>. The
  script, however, calls it on the instance that has already counted the single
  request (\<open>grpc_main_after_single_success\<close>).
\<close>

lemma run_exchange_counts:
  "grpc_success_count (fst (run_exchange run t st i))
     = grpc_success_count st + (if fst (exchange_token run t) = ''success'' then 1 else 0)"
  "snd (run_exchange run t st i) = fst (exchange_token run t)"
  by (auto simp: run_exchange_def split: prod.splits)

lemma grpc_fold_success:
  "grpc_success_count (fold (\<lambda>i st. fst (run_exchange (run i) (t i) st i)) xs st)
     = grpc_success_count st + count_if (\<lambda>i. fst (exchange_token (run i) (t i)) = ''success'') xs"
  by (induction xs arbitrary: st) (simp_all add: run_exchange_counts(1))

lemma grpc_burst_success:
  "grpc_success_count (grpc_burst run t st n)
     = grpc_success_count st
       + count_if (\<lambda>i. fst (exchange_token (run i) (t i)) = ''success'') [0..<n]"
  by (simp add: grpc_burst_def grpc_fold_success)

lemma count_if_pos_iff: "(0 < count_if P xs) = (\<exists>x \<in> set xs. P x)"
  by (induction xs) (auto simp: count_if_nonneg add_pos_nonneg)

lemma grpc_run_test_fresh:
  "snd (grpc_run_test run t (GrpcRaceTest_init admin_token) n)
     = (\<exists>i < n. fst (exchange_token (run i) (t i)) = ''success'')"
  by (auto simp: grpc_run_test_def Let_def grpc_burst_success GrpcRaceTest_init_def
      count_if_pos_iff)

lemma grpc_run_test_after_success:
  assumes "0 < grpc_success_count st"
  shows "snd (grpc_run_test run t st n)"
  using assms count_if_nonneg [of "\<lambda>i. fst (exchange_token (run i) (t i)) = ''success''" "[0..<n]"]
  by (simp add: grpc_run_test_def Let_def grpc_burst_success)

lemma grpc_main_after_single_success:
  assumes "fst (exchange_token single t0) = ''success''"
  shows "snd (grpc_race_test_main admin_token single t0 run t) = (TEST_COMPLETED, 0)"
proof -
  obtain test result where x: "run_exchange single t0 (GrpcRaceTest_init admin_token) 0 = (test, result)"
    by (cases "run_exchange single t0 (GrpcRaceTest_init admin_token) 0")
  from run_exchange_counts [of single t0 "GrpcRaceTest_init admin_token" 0] x assms
  have res: "result = ''success''" and pos: "0 < grpc_success_count test"
    by (simp_all add: GrpcRaceTest_init_def)
  obtain st' where y: "grpc_run_test run t test 50 = (st', True)"
    using grpc_run_test_after_success [OF pos, of run t 50]
    by (cases "grpc_run_test run t test 50") simp
  show ?thesis
    by (simp add: grpc_race_test_main_def x res y)
qed

lemma single_ok_success: "fst (exchange_token single_ok t0) = ''success''"
  by (simp add: exchange_token_def single_ok_def)

lemma burst_all_error_none: "fst (exchange_token (burst_all_error i) t) \<noteq> ''success''"
  by (simp add: exchange_token_def burst_all_error_def)

text \<open>
  C10 at a target that serves the single request and fails all 50 concurrent ones: the
  script ends with \<open>TEST COMPLETED\<close> and exit code 0, since \<open>success_count\<close> still holds
  the 1 of the single request, although none of the 50 requests of the burst
  succeeded; on a fresh instance the same burst makes \<open>run_test\<close> return \<open>False\<close>.
\<close>

theorem grpc_run_completed_without_concurrent_success:
  "snd (grpc_race_test_main ''admin-token'' single_ok 0.2 burst_all_error elapsed_const)
     = (TEST_COMPLETED, 0)
   \<and> \<not> snd (grpc_run_test burst_all_error elapsed_const (GrpcRaceTest_init ''admin-token'') 50)"
proof -
  have "snd (grpc_race_test_main ''admin-token'' single_ok 0.2 burst_all_error elapsed_const)
          = (TEST_COMPLETED, 0)"
    by (rule grpc_main_after_single_success) (rule single_ok_success)
  moreover
  have "\<not> snd (grpc_run_test burst_all_error elapsed_const (GrpcRaceTest_init ''admin-token'') 50)"
    by (simp add: grpc_run_test_fresh burst_all_error_none)
  ultimately show ?thesis by simp
qed

end
